theory Spec2Isabelle
  imports Complex_Main
begin

section \<open>Numeric cells\<close>

text \<open>
  The notebooks compute on pandas columns and numpy arrays of float64 values. A value is
  modelled as a finite real, one of the two infinities, or NaN (which pandas also uses for
  a missing cell). Arithmetic on finite values is exact real arithmetic: rounding, overflow
  and the sign of zero are left out. The special values follow IEEE 754, which numpy
  applies without raising: a division by zero gives an infinity or NaN.
\<close>

datatype fval = NaN | Fin real | PosInf | NegInf

fun fneg :: "fval \<Rightarrow> fval" where
  "fneg NaN = NaN"
| "fneg (Fin x) = Fin (- x)"
| "fneg PosInf = NegInf"
| "fneg NegInf = PosInf"

fun fadd :: "fval \<Rightarrow> fval \<Rightarrow> fval" where
  "fadd NaN _ = NaN"
| "fadd _ NaN = NaN"
| "fadd (Fin x) (Fin y) = Fin (x + y)"
| "fadd PosInf NegInf = NaN"
| "fadd NegInf PosInf = NaN"
| "fadd PosInf _ = PosInf"
| "fadd NegInf _ = NegInf"
| "fadd (Fin x) PosInf = PosInf"
| "fadd (Fin x) NegInf = NegInf"

definition fsub :: "fval \<Rightarrow> fval \<Rightarrow> fval" where
  "fsub a b = fadd a (fneg b)"

text \<open>The sign of a value: \<open>None\<close> for NaN, otherwise \<open>-1\<close>, \<open>0\<close> or \<open>1\<close>.\<close>

fun fsign :: "fval \<Rightarrow> int option" where
  "fsign NaN = None"
| "fsign (Fin x) = Some (if x < 0 then -1 else if x = 0 then 0 else 1)"
| "fsign PosInf = Some 1"
| "fsign NegInf = Some (-1)"

definition signed_inf :: "int \<Rightarrow> fval" where
  "signed_inf k = (if k < 0 then NegInf else if k = 0 then NaN else PosInf)"

fun fmul :: "fval \<Rightarrow> fval \<Rightarrow> fval" where
  "fmul (Fin x) (Fin y) = Fin (x * y)"
| "fmul a b =
     (case (fsign a, fsign b) of
        (Some i, Some j) \<Rightarrow> signed_inf (i * j)
      | _ \<Rightarrow> NaN)"

fun fdiv :: "fval \<Rightarrow> fval \<Rightarrow> fval" where
  "fdiv NaN _ = NaN"
| "fdiv _ NaN = NaN"
| "fdiv (Fin x) (Fin y) =
     (if y = 0 then (if x < 0 then NegInf else if x = 0 then NaN else PosInf)
      else Fin (x / y))"
| "fdiv (Fin x) _ = Fin 0"
| "fdiv PosInf (Fin y) = (if y < 0 then NegInf else PosInf)"
| "fdiv NegInf (Fin y) = (if y < 0 then PosInf else NegInf)"
| "fdiv _ _ = NaN"

text \<open>\<open>a > b\<close> on float64 values: false as soon as one side is NaN.\<close>

fun fgt :: "fval \<Rightarrow> fval \<Rightarrow> bool" where
  "fgt NaN _ = False"
| "fgt _ NaN = False"
| "fgt (Fin x) (Fin y) = (y < x)"
| "fgt PosInf PosInf = False"
| "fgt PosInf _ = True"
| "fgt NegInf _ = False"
| "fgt (Fin x) PosInf = False"
| "fgt (Fin x) NegInf = True"

text \<open>\<open>np.log\<close>: the logarithm of zero is \<open>-inf\<close>, that of a negative value is NaN.\<close>

fun flog :: "fval \<Rightarrow> fval" where
  "flog NaN = NaN"
| "flog (Fin x) = (if x < 0 then NaN else if x = 0 then NegInf else Fin (ln x))"
| "flog PosInf = PosInf"
| "flog NegInf = NaN"

text \<open>\<open>np.sqrt\<close>: NaN on a negative value.\<close>

fun fsqrt :: "fval \<Rightarrow> fval" where
  "fsqrt NaN = NaN"
| "fsqrt (Fin x) = (if x < 0 then NaN else Fin (sqrt x))"
| "fsqrt PosInf = PosInf"
| "fsqrt NegInf = NaN"

definition isna :: "fval \<Rightarrow> bool" where
  "isna v = (v = NaN)"

section \<open>Python errors\<close>

datatype error = NameError | IndexError | KeyError | ValueError

section \<open>The hazard function of the survival notebook\<close>

text \<open>
  The object returned by the library's \<open>SurvfuncRight\<close>, as far as the notebook reads
  it: the arrays \<open>surv_times\<close> and \<open>surv_prob\<close>.
\<close>

record survfunc =
  surv_times :: "fval list"
  surv_prob :: "fval list"

text \<open>
  The part of the notebook's global namespace that \<open>hazard\<close> reads: the variable \<open>s\<close>,
  unbound (\<open>None\<close>) until a cell assigns it.
\<close>

record globals =
  g_s :: "survfunc option"

text \<open>
  \<open>a[ii]\<close> with a boolean array \<open>ii\<close>: numpy raises IndexError when the mask does not
  have the length of the array.
\<close>

definition mask_index :: "'a list \<Rightarrow> bool list \<Rightarrow> error + 'a list" where
  "mask_index xs ii =
     (if length ii \<noteq> length xs then Inl IndexError
      else Inr (map fst (filter snd (zip xs ii))))"

text \<open>\<open>np.diff(a)\<close> is \<open>a[1:] - a[:-1]\<close>.\<close>

definition np_diff :: "fval list \<Rightarrow> fval list" where
  "np_diff a = map2 (\<lambda>hi lo. fsub hi lo) (tl a) (butlast a)"

text \<open>
  \<^verbatim>\<open>
  def hazard(sf):
      tm = s.surv_times
      pr = s.surv_prob
      ii = (pr > 0)
      tm = tm[ii]
      pr = pr[ii]
      lpr = np.log(pr)
      return tm[0:-1], -np.diff(lpr) / np.diff(tm)
  \<close>
  The body never mentions the parameter \<open>sf\<close>; \<open>s\<close> is looked up in the global
  namespace, and the lookup raises NameError while \<open>s\<close> is unbound.
\<close>

definition hazard :: "globals \<Rightarrow> 'a \<Rightarrow> error + (fval list \<times> fval list)" where
  "hazard g sf =
     (case g_s g of
        None \<Rightarrow> Inl NameError
      | Some s \<Rightarrow>
          (let tm = surv_times s;
               pr = surv_prob s;
               ii = map (\<lambda>p. fgt p (Fin 0)) pr
           in case mask_index tm ii of
                Inl e \<Rightarrow> Inl e
              | Inr tm' \<Rightarrow>
                  (case mask_index pr ii of
                     Inl e \<Rightarrow> Inl e
                   | Inr pr' \<Rightarrow>
                       (let lpr = map flog pr'
                        in Inr (butlast tm',
                                map2 fdiv (map fneg (np_diff lpr)) (np_diff tm'))))))"

text \<open>The entries of \<open>s\<close> with a positive survival probability, as \<open>hazard\<close> retains them.\<close>

definition retained_times :: "survfunc \<Rightarrow> fval list" where
  "retained_times s = map fst (filter (\<lambda>(t, p). fgt p (Fin 0)) (zip (surv_times s) (surv_prob s)))"

definition retained_probs :: "survfunc \<Rightarrow> fval list" where
  "retained_probs s = filter (\<lambda>p. fgt p (Fin 0)) (surv_prob s)"

text \<open>Strictly increasing times: each retained time is greater than the one before.\<close>

definition strictly_increasing :: "fval list \<Rightarrow> bool" where
  "strictly_increasing ts = list_all (\<lambda>i. fgt (ts ! Suc i) (ts ! i)) [0..<length ts - 1]"

section \<open>Calls into the modelling library\<close>

text \<open>
  The notebooks hand their data to the statistics library and plot what comes back. A call
  is modelled by the arguments the notebook passes; what the library computes from them is
  a parameter of the cells below.

  \<open>sm.SurvfuncRight(time, status, entry=..., title=...)\<close>:
\<close>

record survfunc_call =
  sf_time :: "fval list"
  sf_status :: "fval list"
  sf_entry :: "fval list option"
  sf_title :: "string option"

text \<open>\<open>sm.PHReg.from_formula(formula, status=..., entry=..., strata=..., data=...)\<close>:\<close>

record 'row phreg_call =
  ph_formula :: string
  ph_status :: "string option"
  ph_entry :: "fval list option"
  ph_strata :: "fval list option"
  ph_data :: "'row list"

section \<open>Survival notebook: the notable-people data\<close>

text \<open>
  A row of \<open>schich.csv.gz\<close> as \<open>pd.read_csv\<close> returns it: two numeric columns and two
  text columns, a missing text cell being \<open>None\<close>.
\<close>

record schich_raw =
  PrsLabel :: "string option"
  BYear :: fval
  DYear :: fval
  Gender :: "string option"

record schich_row = schich_raw +
  status :: int
  lifespan :: fval

text \<open>
  \<^verbatim>\<open>
  df["status"] = 1
  df["lifespan"] = df.DYear - df.BYear
  \<close>
\<close>

definition schich_derive :: "schich_raw \<Rightarrow> schich_row" where
  "schich_derive r =
     \<lparr>PrsLabel = PrsLabel r, BYear = BYear r, DYear = DYear r, Gender = Gender r,
      status = 1, lifespan = fsub (DYear r) (BYear r)\<rparr>"

text \<open>\<^verbatim>\<open>df = df.loc[df.lifespan > 0, :]\<close>\<close>

definition schich_prepare :: "schich_raw list \<Rightarrow> schich_row list" where
  "schich_prepare raw = filter (\<lambda>r. fgt (lifespan r) (Fin 0)) (map schich_derive raw)"

definition status_col :: "schich_row list \<Rightarrow> fval list" where
  "status_col dx = map (\<lambda>r. Fin (real_of_int (status r))) dx"

text \<open>
  \<^verbatim>\<open>
  for sex in "Female", "Male":
      dx = df.loc[df.Gender == sex, :]
      s = sm.SurvfuncRight(dx.lifespan, dx.status, title=sex)
  \<close>
\<close>

definition schich_sex_call :: "schich_row list \<Rightarrow> string \<Rightarrow> survfunc_call" where
  "schich_sex_call df sex =
     (let dx = filter (\<lambda>r. Gender r = Some sex) df
      in \<lparr>sf_time = map lifespan dx, sf_status = status_col dx,
          sf_entry = None, sf_title = Some sex\<rparr>)"

definition schich_sex_calls :: "schich_row list \<Rightarrow> survfunc_call list" where
  "schich_sex_calls df = map (schich_sex_call df) [''Female'', ''Male'']"

text \<open>\<open>a >= b\<close> and \<open>a < b\<close> on float64 values.\<close>

definition fge :: "fval \<Rightarrow> fval \<Rightarrow> bool" where
  "fge a b = (a \<noteq> NaN \<and> b \<noteq> NaN \<and> \<not> fgt b a)"

definition flt :: "fval \<Rightarrow> fval \<Rightarrow> bool" where
  "flt a b = fgt b a"

text \<open>
  \<^verbatim>\<open>
  for byear in np.arange(0, 2000, 500):
      ii = (df.BYear >= byear) & (df.BYear < byear + 500)
      dx = df.loc[ii, :]
      s = sm.SurvfuncRight(dx.lifespan, dx.status)
  \<close>
  This is the call of the hazard cell; the cell of the survival plots passes the title
  \<open>"%d-%d" % (byear, byear+500)\<close> as well.
\<close>

definition schich_era_call :: "schich_row list \<Rightarrow> real \<Rightarrow> survfunc_call" where
  "schich_era_call df byear =
     (let dx = filter (\<lambda>r. fge (BYear r) (Fin byear) \<and> flt (BYear r) (Fin (byear + 500))) df
      in \<lparr>sf_time = map lifespan dx, sf_status = status_col dx,
          sf_entry = None, sf_title = None\<rparr>)"

definition schich_era_calls :: "schich_row list \<Rightarrow> survfunc_call list" where
  "schich_era_calls df = map (schich_era_call df) [0, 500, 1000, 1500]"


text \<open>
  The hazard cells. Each turn of the loop binds the global \<open>s\<close> to what the library
  returns, calls \<open>hazard(s)\<close> and plots \<open>np.log(hz)\<close> against \<open>tm\<close>:
  \<^verbatim>\<open>
      s = sm.SurvfuncRight(dx.lifespan, dx.status, title=sex)
      tm, hz = hazard(s)
      plt.plot(tm, np.log(hz), lw=3, label=sex)
  \<close>
  The library routine is the parameter \<open>SurvfuncRight\<close>; it may raise. The result is the
  new global state and the curve drawn.
\<close>

definition hazard_plot ::
  "(survfunc_call \<Rightarrow> error + survfunc) \<Rightarrow> survfunc_call \<Rightarrow> globals
   \<Rightarrow> error + (globals \<times> (fval list \<times> fval list))" where
  "hazard_plot SurvfuncRight c g =
     (case SurvfuncRight c of
        Inl e \<Rightarrow> Inl e
      | Inr s \<Rightarrow>
          (let g' = g\<lparr>g_s := Some s\<rparr>
           in case hazard g' s of
                Inl e \<Rightarrow> Inl e
              | Inr (tm, hz) \<Rightarrow> Inr (g', (tm, map flog hz))))"

fun hazard_loop ::
  "(survfunc_call \<Rightarrow> error + survfunc) \<Rightarrow> survfunc_call list \<Rightarrow> globals
   \<Rightarrow> error + (globals \<times> (fval list \<times> fval list) list)" where
  "hazard_loop SurvfuncRight [] g = Inr (g, [])"
| "hazard_loop SurvfuncRight (c # cs) g =
     (case hazard_plot SurvfuncRight c g of
        Inl e \<Rightarrow> Inl e
      | Inr (g', curve) \<Rightarrow>
          (case hazard_loop SurvfuncRight cs g' of
             Inl e \<Rightarrow> Inl e
           | Inr (g'', curves) \<Rightarrow> Inr (g'', curve # curves)))"

definition schich_hazard_by_sex ::
  "(survfunc_call \<Rightarrow> error + survfunc) \<Rightarrow> schich_row list \<Rightarrow> globals
   \<Rightarrow> error + (globals \<times> (fval list \<times> fval list) list)" where
  "schich_hazard_by_sex SurvfuncRight df g = hazard_loop SurvfuncRight (schich_sex_calls df) g"

definition schich_hazard_by_era ::
  "(survfunc_call \<Rightarrow> error + survfunc) \<Rightarrow> schich_row list \<Rightarrow> globals
   \<Rightarrow> error + (globals \<times> (fval list \<times> fval list) list)" where
  "schich_hazard_by_era SurvfuncRight df g = hazard_loop SurvfuncRight (schich_era_calls df) g"

text \<open>
  The values the notebook can read off the library's survival function: its times and
  its probabilities.
\<close>

definition library_values :: "survfunc \<Rightarrow> fval set" where
  "library_values s = set (surv_times s) \<union> set (surv_prob s)"

section \<open>Survival notebook: the NHANES III data\<close>

text \<open>
  A row of the frame \<open>pd.merge(surv, df, left_on="seqn", right_on="seqn")\<close>: the columns
  of the mortality file and of the interview file, all read as numbers by
  \<open>pd.read_fwf\<close>, a blank field being NaN.
\<close>

record nhanes_merged =
  seqn :: fval
  eligstat :: fval
  mortstat :: fval
  permth_int :: fval
  permth_exam :: fval
  sex :: fval
  age :: fval
  county :: fval
  urbanrural :: fval
  state :: fval
  region :: fval
  poverty :: fval

record nhanes_row = nhanes_merged +
  female :: int
  rural :: int
  age_int :: fval
  end_col :: fval

text \<open>
  \<^verbatim>\<open>
  df["poverty"] = df["poverty"].replace({888888: np.nan})
  df["female"] = (df.sex == 2).astype(np.int)
  df["rural"] = (df.urbanrural == 2).astype(np.int)
  df["age_int"] = 12*df.age  # months
  df["end"] = df.age_int + df.permth_int  # months
  \<close>
  The column \<open>end\<close> is the field \<open>end_col\<close>.
\<close>

definition nhanes_derive :: "nhanes_merged \<Rightarrow> nhanes_row" where
  "nhanes_derive r =
     \<lparr>seqn = seqn r, eligstat = eligstat r, mortstat = mortstat r,
      permth_int = permth_int r, permth_exam = permth_exam r, sex = sex r, age = age r,
      county = county r, urbanrural = urbanrural r, state = state r, region = region r,
      poverty = (if poverty r = Fin 888888 then NaN else poverty r),
      female = (if sex r = Fin 2 then 1 else 0),
      rural = (if urbanrural r = Fin 2 then 1 else 0),
      age_int = fmul (Fin 12) (age r),
      end_col = fadd (fmul (Fin 12) (age r)) (permth_int r)\<rparr>"

text \<open>
  \<^verbatim>\<open>df = df.dropna()\<close>: a row stays when none of its cells is missing. The two integer
  columns cannot be missing.
\<close>

definition nhanes_complete :: "nhanes_row \<Rightarrow> bool" where
  "nhanes_complete r =
     (\<not> isna (seqn r) \<and> \<not> isna (eligstat r) \<and> \<not> isna (mortstat r)
      \<and> \<not> isna (permth_int r) \<and> \<not> isna (permth_exam r) \<and> \<not> isna (sex r)
      \<and> \<not> isna (age r) \<and> \<not> isna (county r) \<and> \<not> isna (urbanrural r)
      \<and> \<not> isna (state r) \<and> \<not> isna (region r) \<and> \<not> isna (poverty r)
      \<and> \<not> isna (age_int r) \<and> \<not> isna (end_col r))"

definition nhanes_dropna :: "nhanes_row list \<Rightarrow> nhanes_row list" where
  "nhanes_dropna df = filter nhanes_complete df"

text \<open>\<^verbatim>\<open>df = df.loc[df.end > df.age_int]\<close>\<close>

definition nhanes_positive :: "nhanes_row list \<Rightarrow> nhanes_row list" where
  "nhanes_positive df = filter (\<lambda>r. fgt (end_col r) (age_int r)) df"

definition nhanes_prepare :: "nhanes_merged list \<Rightarrow> nhanes_row list" where
  "nhanes_prepare merged = nhanes_positive (nhanes_dropna (map nhanes_derive merged))"

text \<open>
  \<^verbatim>\<open>
  for female in (0, 1):
      ii = df.female == female
      dx = df.loc[ii, :]
      s = sm.SurvfuncRight(dx.loc[:, "end"], dx.loc[:, "mortstat"],
                     entry=dx.loc[:, "age_int"])
  \<close>
\<close>

definition nhanes_sex_call :: "nhanes_row list \<Rightarrow> int \<Rightarrow> survfunc_call" where
  "nhanes_sex_call df f =
     (let dx = filter (\<lambda>r. female r = f) df
      in \<lparr>sf_time = map end_col dx, sf_status = map mortstat dx,
          sf_entry = Some (map age_int dx), sf_title = None\<rparr>)"

definition nhanes_sex_calls :: "nhanes_row list \<Rightarrow> survfunc_call list" where
  "nhanes_sex_calls df = map (nhanes_sex_call df) [0, 1]"

text \<open>
  \<^verbatim>\<open>
  fml = "end ~ female + rural + C(region) + poverty"
  model1 = sm.PHReg.from_formula(fml, status="mortstat", entry=df.age_int,
                                 data=df)
  model2 = sm.PHReg.from_formula(fml, status="mortstat", entry=df.age_int,
                                 strata=df.state, data=df)
  model3 = sm.PHReg.from_formula(fml, status="mortstat", entry=df.age_int,
                                 strata=df.county, data=df)
  \<close>
\<close>

definition nhanes_fml :: string where
  "nhanes_fml = ''end ~ female + rural + C(region) + poverty''"

definition nhanes_model1 :: "nhanes_row list \<Rightarrow> nhanes_row phreg_call" where
  "nhanes_model1 df =
     \<lparr>ph_formula = nhanes_fml, ph_status = Some ''mortstat'',
      ph_entry = Some (map age_int df), ph_strata = None, ph_data = df\<rparr>"

definition nhanes_model2 :: "nhanes_row list \<Rightarrow> nhanes_row phreg_call" where
  "nhanes_model2 df =
     \<lparr>ph_formula = nhanes_fml, ph_status = Some ''mortstat'',
      ph_entry = Some (map age_int df), ph_strata = Some (map state df), ph_data = df\<rparr>"

definition nhanes_model3 :: "nhanes_row list \<Rightarrow> nhanes_row phreg_call" where
  "nhanes_model3 df =
     \<lparr>ph_formula = nhanes_fml, ph_status = Some ''mortstat'',
      ph_entry = Some (map age_int df), ph_strata = Some (map county df), ph_data = df\<rparr>"

text \<open>
  A sample merged row: a woman interviewed at age \<open>ag\<close> (years) and followed for \<open>pm\<close>
  months after the interview.
\<close>

definition nhanes_example :: "fval \<Rightarrow> fval \<Rightarrow> nhanes_merged" where
  "nhanes_example ag pm =
     \<lparr>seqn = Fin 3, eligstat = Fin 1, mortstat = Fin 0, permth_int = pm,
      permth_exam = Fin 160, sex = Fin 2, age = ag, county = Fin 37, urbanrural = Fin 1,
      state = Fin 6, region = Fin 4, poverty = Fin 1.5\<rparr>"

text \<open>A sample row of the notable-people data, born in \<open>b\<close> and dead in \<open>d\<close>.\<close>

definition schich_example :: "fval \<Rightarrow> fval \<Rightarrow> schich_raw" where
  "schich_example b d = \<lparr>PrsLabel = Some ''A'', BYear = b, DYear = d, Gender = Some ''Female''\<rparr>"

text \<open>
  The curve of log hazards in words: the retained times without the last one, against the
  logarithm of \<open>(log pr[i] - log pr[i+1]) / (t[i+1] - t[i])\<close>.
\<close>

definition log_hazard_curve :: "survfunc \<Rightarrow> fval list \<times> fval list" where
  "log_hazard_curve s =
     (let t = retained_times s; lp = map flog (retained_probs s)
      in (butlast t,
          map (\<lambda>i. flog (fdiv (fsub (lp ! i) (lp ! Suc i)) (fsub (t ! Suc i) (t ! i))))
            [0..<length t - 1]))"

text \<open>A survival function with two steps, as the library could return it.\<close>

definition survfunc_example :: survfunc where
  "survfunc_example = \<lparr>surv_times = [Fin 1, Fin 3], surv_prob = [Fin 1, Fin (1/2)]\<rparr>"

section \<open>Multilevel notebook: coercion and derived variables\<close>

text \<open>
  A cell of \<open>rlms.csv.gz\<close> as \<open>pd.read_csv\<close> returns it in a column of mixed types: a
  number (NaN when the field is empty) or a text.
\<close>

datatype cell = Num fval | Str string

record rlms_csv =
  csv_idind :: cell
  csv_year :: cell
  csv_psu :: cell
  csv_marst :: cell
  csv_h5 :: cell
  csv_h6 :: cell
  csv_h7_2 :: cell
  csv_m1 :: cell
  csv_m2 :: cell
  csv_o38a :: cell
  csv_j57 :: cell
  csv_j59 :: cell

text \<open>
  \<open>pd.to_numeric(column, errors=...)\<close> on one cell. How the library reads a text as a
  number is the parameter \<open>parse\<close>. A text that is no number raises ValueError under
  \<open>errors="raise"\<close>, the default, and becomes NaN under \<open>errors="coerce"\<close>.
\<close>

datatype errors_arg = Raise | Coerce

fun to_numeric :: "(string \<Rightarrow> fval option) \<Rightarrow> errors_arg \<Rightarrow> cell \<Rightarrow> error + fval" where
  "to_numeric parse errors (Num v) = Inr v"
| "to_numeric parse errors (Str t) =
     (case parse t of
        Some v \<Rightarrow> Inr v
      | None \<Rightarrow> (case errors of Raise \<Rightarrow> Inl ValueError | Coerce \<Rightarrow> Inr NaN))"

text \<open>Sequencing of steps that may raise: the first error ends the computation.\<close>

definition then_do :: "error + 'a \<Rightarrow> ('a \<Rightarrow> error + 'b) \<Rightarrow> error + 'b" where
  "then_do m f = (case m of Inl e \<Rightarrow> Inl e | Inr x \<Rightarrow> f x)"

fun collect :: "(error + 'a) list \<Rightarrow> error + 'a list" where
  "collect [] = Inr []"
| "collect (m # ms) = then_do m (\<lambda>x. then_do (collect ms) (\<lambda>xs. Inr (x # xs)))"

record rlms_num =
  idind :: fval
  year :: fval
  psu :: cell
  marst :: cell
  h5 :: cell
  h6 :: fval
  h7_2 :: cell
  m1 :: fval
  m2 :: fval
  o38a :: fval
  j57 :: fval
  j59 :: fval

text \<open>
  \<^verbatim>\<open>
  qv = ("idind", "year", "h6", "m1", "m2", "o38a", "j57", "j59")
  for c in qv:
      df[c] = pd.to_numeric(df[c], errors="coerce")
  \<close>
  The loop goes column by column; the model goes row by row, in the order of \<open>qv\<close> within
  a row. Both raise exactly when some cell of a column of \<open>qv\<close> raises.
\<close>

definition coerce_row :: "(string \<Rightarrow> fval option) \<Rightarrow> rlms_csv \<Rightarrow> error + rlms_num" where
  "coerce_row parse r =
     then_do (to_numeric parse Coerce (csv_idind r)) (\<lambda>v_idind.
     then_do (to_numeric parse Coerce (csv_year r)) (\<lambda>v_year.
     then_do (to_numeric parse Coerce (csv_h6 r)) (\<lambda>v_h6.
     then_do (to_numeric parse Coerce (csv_m1 r)) (\<lambda>v_m1.
     then_do (to_numeric parse Coerce (csv_m2 r)) (\<lambda>v_m2.
     then_do (to_numeric parse Coerce (csv_o38a r)) (\<lambda>v_o38a.
     then_do (to_numeric parse Coerce (csv_j57 r)) (\<lambda>v_j57.
     then_do (to_numeric parse Coerce (csv_j59 r)) (\<lambda>v_j59.
       Inr \<lparr>idind = v_idind, year = v_year, psu = csv_psu r, marst = csv_marst r,
            h5 = csv_h5 r, h6 = v_h6, h7_2 = csv_h7_2 r, m1 = v_m1, m2 = v_m2,
            o38a = v_o38a, j57 = v_j57, j59 = v_j59\<rparr>))))))))"

definition rlms_coerce :: "(string \<Rightarrow> fval option) \<Rightarrow> rlms_csv list \<Rightarrow> error + rlms_num list" where
  "rlms_coerce parse raw = collect (map (coerce_row parse) raw)"

text \<open>
  \<open>Series.mean()\<close> skips missing values; the mean of no value is NaN.
\<close>

definition fmean :: "fval list \<Rightarrow> fval" where
  "fmean xs =
     (let ys = filter (\<lambda>v. \<not> isna v) xs
      in if ys = [] then NaN else fdiv (foldl fadd (Fin 0) ys) (Fin (real (length ys))))"

record rlms_row = rlms_num +
  rl_female :: int
  rl_age :: fval
  bmi :: fval
  year_cen :: fval
  age_cen :: fval
  birth_year_cen :: fval

text \<open>
  \<^verbatim>\<open>
  df["female"] = (df.h5 == "female").astype(np.int)
  df["age"] = df.year - df.h6
  df["bmi"] = df.m1 / (df.m2 / 100)**2
  year_mean = df.year.mean()
  df["year_cen"] = df.year - year_mean
  age_mean = df.age.mean()
  df["age_cen"] = df.age - age_mean
  df["birth_year_cen"] = df.h6 - df.h6.mean()
  \<close>
  The columns \<open>female\<close> and \<open>age\<close> are the fields \<open>rl_female\<close> and \<open>rl_age\<close>.
\<close>

definition rlms_year_mean :: "rlms_num list \<Rightarrow> fval" where
  "rlms_year_mean df = fmean (map year df)"

definition rlms_age_mean :: "rlms_num list \<Rightarrow> fval" where
  "rlms_age_mean df = fmean (map (\<lambda>r. fsub (year r) (h6 r)) df)"

definition rlms_derive_row :: "rlms_num list \<Rightarrow> rlms_num \<Rightarrow> rlms_row" where
  "rlms_derive_row df r =
     \<lparr>idind = idind r, year = year r, psu = psu r, marst = marst r, h5 = h5 r, h6 = h6 r,
      h7_2 = h7_2 r, m1 = m1 r, m2 = m2 r, o38a = o38a r, j57 = j57 r, j59 = j59 r,
      rl_female = (if h5 r = Str ''female'' then 1 else 0),
      rl_age = fsub (year r) (h6 r),
      bmi = fdiv (m1 r) (fmul (fdiv (m2 r) (Fin 100)) (fdiv (m2 r) (Fin 100))),
      year_cen = fsub (year r) (rlms_year_mean df),
      age_cen = fsub (fsub (year r) (h6 r)) (rlms_age_mean df),
      birth_year_cen = fsub (h6 r) (fmean (map h6 df))\<rparr>"

definition rlms_derive :: "rlms_num list \<Rightarrow> rlms_row list" where
  "rlms_derive df = map (rlms_derive_row df) df"

section \<open>Multilevel notebook: the analysis frame and the model fits\<close>

record rlms_dx =
  dx_idind :: fval
  dx_bmi :: fval
  dx_age_cen :: fval
  dx_female :: int
  dx_birth_year_cen :: fval
  dx_year_cen :: fval
  dx_psu :: cell

text \<open>
  \<^verbatim>\<open>
  dx = df[["idind", "bmi", "age_cen", "female", "birth_year_cen",
           "year_cen", "psu"]].dropna()
  \<close>
\<close>

definition rlms_select :: "rlms_row \<Rightarrow> rlms_dx" where
  "rlms_select r =
     \<lparr>dx_idind = idind r, dx_bmi = bmi r, dx_age_cen = age_cen r, dx_female = rl_female r,
      dx_birth_year_cen = birth_year_cen r, dx_year_cen = year_cen r, dx_psu = psu r\<rparr>"

definition dx_complete :: "rlms_dx \<Rightarrow> bool" where
  "dx_complete r =
     (\<not> isna (dx_idind r) \<and> \<not> isna (dx_bmi r) \<and> \<not> isna (dx_age_cen r)
      \<and> \<not> isna (dx_birth_year_cen r) \<and> \<not> isna (dx_year_cen r) \<and> dx_psu r \<noteq> Num NaN)"

definition rlms_dx_frame :: "rlms_row list \<Rightarrow> rlms_dx list" where
  "rlms_dx_frame df = filter dx_complete (map rlms_select df)"



text \<open>The distinct values of a column, in the order of their first appearance.\<close>

definition unique :: "'a list \<Rightarrow> 'a list" where
  "unique xs = rev (remdups (rev xs))"

text \<open>
  \<^verbatim>\<open>
  idx = dx.idind.unique()
  idx_use = np.random.choice(idx, 2000, replace=False)
  dx = dx.loc[dx.idind.isin(idx_use), :]
  \<close>
  The random draw is the parameter \<open>choice\<close>. Without replacement, numpy raises ValueError
  when fewer than 2000 values are there to draw from.
\<close>

definition rlms_subsample ::
  "(fval list \<Rightarrow> nat \<Rightarrow> fval list) \<Rightarrow> rlms_dx list \<Rightarrow> error + rlms_dx list" where
  "rlms_subsample choice dx =
     (let idx = unique (map dx_idind dx)
      in if length idx < 2000 then Inl ValueError
         else (let idx_use = choice idx 2000
               in Inr (filter (\<lambda>r. dx_idind r \<in> set idx_use) dx)))"

text \<open>
  \<open>sm.MixedLM.from_formula(formula, groups=..., vc_formula=..., data=...)\<close>. The
  dictionary \<open>vc_formula\<close> is kept as the list of its items, in the order written.
\<close>

record mixedlm_call =
  ml_formula :: string
  ml_groups :: string
  ml_vc_formula :: "(string \<times> string) list option"
  ml_data :: "rlms_dx list"

text \<open>
  \<^verbatim>\<open>
  model1 = sm.MixedLM.from_formula("bmi ~ age_cen*female + year_cen",
                    groups="idind", data=dx)
  \<close>
\<close>

definition rlms_model1 :: "rlms_dx list \<Rightarrow> mixedlm_call" where
  "rlms_model1 dx =
     \<lparr>ml_formula = ''bmi ~ age_cen*female + year_cen'', ml_groups = ''idind'',
      ml_vc_formula = None, ml_data = dx\<rparr>"

text \<open>
  \<^verbatim>\<open>
  vcf = {"i": "1", "s": "0 + age_cen"}
  model2 = sm.MixedLM.from_formula("bmi ~ age_cen*female + year_cen",
                groups="idind", vc_formula=vcf, data=dx)
  \<close>
\<close>

definition rlms_model2 :: "rlms_dx list \<Rightarrow> mixedlm_call" where
  "rlms_model2 dx =
     \<lparr>ml_formula = ''bmi ~ age_cen*female + year_cen'', ml_groups = ''idind'',
      ml_vc_formula = Some [(''i'', ''1''), (''s'', ''0 + age_cen'')], ml_data = dx\<rparr>"

text \<open>
  \<^verbatim>\<open>
  vcf = {"i": "0 + C(idind)", "s": "0 + C(idind):age_cen",
         "ipsu": "1"}
  model3 = sm.MixedLM.from_formula("bmi ~ age_cen*female + year_cen",
                groups="psu", vc_formula=vcf, data=dx)
  \<close>
\<close>

definition rlms_model3 :: "rlms_dx list \<Rightarrow> mixedlm_call" where
  "rlms_model3 dx =
     \<lparr>ml_formula = ''bmi ~ age_cen*female + year_cen'', ml_groups = ''psu'',
      ml_vc_formula = Some [(''i'', ''0 + C(idind)''), (''s'', ''0 + C(idind):age_cen''),
                            (''ipsu'', ''1'')],
      ml_data = dx\<rparr>"

text \<open>
  \<^verbatim>\<open>
  vcf = {"i": "0 + C(idind)", "s": "0 + C(idind):age_cen",
         "ipsu": "1", "spsu": "0 + age_cen"}
  model4 = sm.MixedLM.from_formula("bmi ~ age_cen*female + year_cen",
                groups="psu", vc_formula=vcf, data=dx)
  \<close>
\<close>

definition rlms_model4 :: "rlms_dx list \<Rightarrow> mixedlm_call" where
  "rlms_model4 dx =
     \<lparr>ml_formula = ''bmi ~ age_cen*female + year_cen'', ml_groups = ''psu'',
      ml_vc_formula = Some [(''i'', ''0 + C(idind)''), (''s'', ''0 + C(idind):age_cen''),
                            (''ipsu'', ''1''), (''spsu'', ''0 + age_cen'')],
      ml_data = dx\<rparr>"

definition rlms_mixedlm_calls :: "rlms_dx list \<Rightarrow> mixedlm_call list" where
  "rlms_mixedlm_calls dx = [rlms_model1 dx, rlms_model2 dx, rlms_model3 dx, rlms_model4 dx]"

text \<open>The formulas of a \<open>vc_formula\<close> argument; none when the argument is absent.\<close>

definition vc_formulas :: "mixedlm_call \<Rightarrow> string list" where
  "vc_formulas c = (case ml_vc_formula c of None \<Rightarrow> [] | Some vcf \<Rightarrow> map snd vcf)"


definition rlms_row_example :: "nat \<Rightarrow> rlms_row" where
  "rlms_row_example i =
     \<lparr>idind = Fin (real i), year = Fin 2005, psu = Num (Fin 1), marst = Str ''married'',
      h5 = Str ''female'', h6 = Fin 1965, h7_2 = Num (Fin 10), m1 = Fin 70, m2 = Fin 170,
      o38a = Fin 8, j57 = Fin 1000, j59 = Fin 160, rl_female = 1, rl_age = Fin 40,
      bmi = Fin (70 / (17 / 10)\<^sup>2), year_cen = Fin 0, age_cen = Fin 0,
      birth_year_cen = Fin 0\<rparr>"

section \<open>Multilevel notebook: cells and the state they share\<close>

text \<open>
  The library's random generator, as far as the notebook uses it: \<open>np.random.choice\<close>
  without replacement and \<open>np.random.normal\<close>. Both read the state of numpy's global
  generator and leave a new one. What they draw is a parameter.
\<close>

record 'r generator =
  gen_choice :: "'r \<Rightarrow> fval list \<Rightarrow> nat \<Rightarrow> fval list \<times> 'r"
  gen_normal :: "'r \<Rightarrow> fval \<times> 'r"

text \<open>The draw number \<open>k\<close> from the state \<open>r\<close> on, and the state after \<open>k\<close> draws.\<close>

fun draws :: "('r \<Rightarrow> fval \<times> 'r) \<Rightarrow> 'r \<Rightarrow> nat \<Rightarrow> fval" where
  "draws nrm r 0 = fst (nrm r)"
| "draws nrm r (Suc k) = draws nrm (snd (nrm r)) k"

fun after_draws :: "('r \<Rightarrow> fval \<times> 'r) \<Rightarrow> 'r \<Rightarrow> nat \<Rightarrow> 'r" where
  "after_draws nrm r 0 = r"
| "after_draws nrm r (Suc k) = after_draws nrm (snd (nrm r)) k"

text \<open>What the notebook reads of the result of a mixed-model fit: \<open>params\<close> and \<open>scale\<close>.\<close>

record mixedlm_result =
  res_params :: "(string \<times> fval) list"
  res_scale :: fval

text \<open>
  The cells of a notebook run in one process. The state that one cell of the multilevel
  notebook leaves and a later cell reads: the frames \<open>df\<close> and \<open>dx\<close>, the means
  \<open>year_mean\<close> and \<open>age_mean\<close>, the result \<open>result1\<close> of the first mixed-model fit, the
  parameter vector \<open>pa\<close>, and the state of numpy's global random generator. A variable is
  \<open>None\<close> until a cell binds it.
\<close>

record 'r rlms_globals =
  g_df :: "rlms_row list option"
  g_dx :: "rlms_dx list option"
  g_year_mean :: "fval option"
  g_age_mean :: "fval option"
  g_result1 :: "mixedlm_result option"
  g_pa :: "(string \<times> fval) list option"
  g_rng :: 'r

text \<open>The state before the first cell, the generator being in the state \<open>r\<close>.\<close>

definition rlms_initial :: "'r \<Rightarrow> 'r rlms_globals" where
  "rlms_initial r =
     \<lparr>g_df = None, g_dx = None, g_year_mean = None, g_age_mean = None, g_result1 = None,
      g_pa = None, g_rng = r\<rparr>"

text \<open>Reading a global variable raises NameError while it is unbound.\<close>

definition lookup_var :: "'a option \<Rightarrow> error + 'a" where
  "lookup_var v = (case v of None \<Rightarrow> Inl NameError | Some x \<Rightarrow> Inr x)"

text \<open>\<open>pa["label"]\<close> on a pandas Series raises KeyError when the label is absent.\<close>

definition series_get :: "(string \<times> fval) list \<Rightarrow> string \<Rightarrow> error + fval" where
  "series_get pa k = (case map_of pa k of None \<Rightarrow> Inl KeyError | Some v \<Rightarrow> Inr v)"

text \<open>
  The cell of the derived variables binds \<open>df\<close>, \<open>year_mean\<close> and \<open>age_mean\<close>; its
  argument is the coerced frame.
\<close>

definition rlms_derive_cell :: "rlms_num list \<Rightarrow> 'r rlms_globals \<Rightarrow> 'r rlms_globals" where
  "rlms_derive_cell df g =
     g\<lparr>g_df := Some (rlms_derive df), g_year_mean := Some (rlms_year_mean df),
       g_age_mean := Some (rlms_age_mean df)\<rparr>"

text \<open>The cell of the analysis frame binds \<open>dx\<close>.\<close>

definition rlms_dx_cell :: "'r rlms_globals \<Rightarrow> error + 'r rlms_globals" where
  "rlms_dx_cell g =
     then_do (lookup_var (g_df g)) (\<lambda>df. Inr (g\<lparr>g_dx := Some (rlms_dx_frame df)\<rparr>))"

text \<open>
  The subsampling cell draws from the generator, binds \<open>dx\<close> again and leaves the generator
  in its new state.
\<close>

definition rlms_subsample_cell :: "'r generator \<Rightarrow> 'r rlms_globals \<Rightarrow> error + 'r rlms_globals" where
  "rlms_subsample_cell gen g =
     then_do (lookup_var (g_dx g)) (\<lambda>dx.
     then_do (rlms_subsample (\<lambda>idx n. fst (gen_choice gen (g_rng g) idx n)) dx) (\<lambda>dx'.
       Inr (g\<lparr>g_dx := Some dx',
              g_rng := snd (gen_choice gen (g_rng g) (unique (map dx_idind dx)) 2000)\<rparr>)))"

text \<open>
  \<^verbatim>\<open>
  model1 = sm.MixedLM.from_formula("bmi ~ age_cen*female + year_cen",
                    groups="idind", data=dx)
  result1 = model1.fit()
  \<close>
  What the library fits is the parameter \<open>fit\<close>; it may raise.
\<close>

definition rlms_model1_cell ::
  "(mixedlm_call \<Rightarrow> error + mixedlm_result) \<Rightarrow> 'r rlms_globals \<Rightarrow> error + 'r rlms_globals" where
  "rlms_model1_cell fit g =
     then_do (lookup_var (g_dx g)) (\<lambda>dx.
     then_do (fit (rlms_model1 dx)) (\<lambda>result1.
       Inr (g\<lparr>g_result1 := Some result1\<rparr>)))"

text \<open>
  \<^verbatim>\<open>
  pa = result1.params

  icc = pa["idind Var"] / (pa["idind Var"] + result1.scale)
  print(icc)
  \<close>
  The cell binds \<open>pa\<close> and prints the intraclass correlation.
\<close>

definition rlms_icc_cell :: "'r rlms_globals \<Rightarrow> error + ('r rlms_globals \<times> fval)" where
  "rlms_icc_cell g =
     then_do (lookup_var (g_result1 g)) (\<lambda>result1.
       (let g' = g\<lparr>g_pa := Some (res_params result1)\<rparr>
        in then_do (lookup_var (g_pa g')) (\<lambda>pa.
           then_do (series_get pa ''idind Var'') (\<lambda>v1.
           then_do (series_get pa ''idind Var'') (\<lambda>v2.
             Inr (g', fdiv v1 (fadd v2 (res_scale result1))))))))"

text \<open>
  \<^verbatim>\<open>
  a = pa["Intercept"]
  b = pa["age_cen"]
  s = np.sqrt(pa["idind Var"])

  for k in range(10):
      x = np.r_[20, 60]
      y = a + b * (x - age_mean) + s * np.random.normal()
      ax = sns.lineplot(x, y, color='purple')
  \<close>
  The draws of \<open>np.random.normal()\<close> are the parameter \<open>normal\<close>, one per turn of the
  loop. The value of the cell is the list of the lines it draws. The names \<open>a\<close>, \<open>b\<close>,
  \<open>s\<close>, \<open>x\<close>, \<open>y\<close>, \<open>k\<close> and \<open>ax\<close> that the cell binds are bound again by every later
  cell that reads them.
\<close>

definition sim_line :: "fval \<Rightarrow> fval \<Rightarrow> fval \<Rightarrow> fval \<Rightarrow> fval \<Rightarrow> fval list \<times> fval list" where
  "sim_line a b s age_mean z =
     (let x = [Fin 20, Fin 60];
          y = map (\<lambda>xi. fadd (fadd a (fmul b (fsub xi age_mean))) (fmul s z)) x
      in (x, y))"

definition rlms_sim_cell ::
  "(nat \<Rightarrow> fval) \<Rightarrow> 'r rlms_globals \<Rightarrow> error + (fval list \<times> fval list) list" where
  "rlms_sim_cell normal g =
     then_do (lookup_var (g_pa g)) (\<lambda>pa.
     then_do (series_get pa ''Intercept'') (\<lambda>a.
     then_do (series_get pa ''age_cen'') (\<lambda>b.
     then_do (series_get pa ''idind Var'') (\<lambda>v.
     collect (map (\<lambda>k. then_do (lookup_var (g_age_mean g)) (\<lambda>age_mean.
                          Inr (sim_line a b (fsqrt v) age_mean (normal k))))
                [0..<10])))))"

text \<open>
  The simulation cell on the shared state: its ten draws come from the generator in the
  state the earlier cells left, and it leaves the generator ten draws further.
\<close>

definition rlms_sim_cell_gen ::
  "'r generator \<Rightarrow> 'r rlms_globals \<Rightarrow> error + ('r rlms_globals \<times> (fval list \<times> fval list) list)" where
  "rlms_sim_cell_gen gen g =
     then_do (rlms_sim_cell (draws (gen_normal gen) (g_rng g)) g) (\<lambda>lines.
       Inr (g\<lparr>g_rng := after_draws (gen_normal gen) (g_rng g) 10\<rparr>, lines))"

text \<open>The value of a cell, without the state it leaves.\<close>

definition drawn :: "error + ('g \<times> 'a) \<Rightarrow> error + 'a" where
  "drawn r = (case r of Inl e \<Rightarrow> Inl e | Inr (g, v) \<Rightarrow> Inr v)"

text \<open>
  The cells of the multilevel notebook in sequence, from the csv frame that \<open>pd.read_csv\<close>
  returned up to the first simulation cell: coercion, derived variables, analysis frame,
  subsampling, first mixed-model fit, intraclass correlation. The cells in between only
  print, or fit by least squares, and bind names that no later cell reads (\<open>sz\<close>,
  \<open>model0\<close>, \<open>result0\<close>).
\<close>

definition rlms_before_sim ::
  "'r generator \<Rightarrow> (mixedlm_call \<Rightarrow> error + mixedlm_result) \<Rightarrow> (string \<Rightarrow> fval option)
   \<Rightarrow> rlms_csv list \<Rightarrow> 'r rlms_globals \<Rightarrow> error + 'r rlms_globals" where
  "rlms_before_sim gen fit parse csv g0 =
     then_do (rlms_coerce parse csv) (\<lambda>df.
     then_do (rlms_dx_cell (rlms_derive_cell df g0)) (\<lambda>g1.
     then_do (rlms_subsample_cell gen g1) (\<lambda>g2.
     then_do (rlms_model1_cell fit g2) (\<lambda>g3.
     then_do (rlms_icc_cell g3) (\<lambda>(g4, icc). Inr g4)))))"

text \<open>
  Sample data for a run: 2000 subjects with one response each (subject \<open>i\<close> has the
  identifier \<open>i\<close>), a generator whose state is a counter (the normal draw in state \<open>r\<close> is
  \<open>r\<close>, the choice takes the first values offered), and a fit that returns an intercept
  of 25, a slope of 1/10 per year and a variance of 4 for the random intercept.
\<close>

definition rlms_csv_subject :: "nat \<Rightarrow> rlms_csv" where
  "rlms_csv_subject i =
     \<lparr>csv_idind = Num (Fin (real i)), csv_year = Num (Fin 2005), csv_psu = Num (Fin 1),
      csv_marst = Str ''married'', csv_h5 = Str ''female'', csv_h6 = Num (Fin 1965),
      csv_h7_2 = Num (Fin 10), csv_m1 = Num (Fin 70), csv_m2 = Num (Fin 170),
      csv_o38a = Num (Fin 8), csv_j57 = Num (Fin 1000), csv_j59 = Num (Fin 160)\<rparr>"

definition rlms_num_subject :: "nat \<Rightarrow> rlms_num" where
  "rlms_num_subject i =
     \<lparr>idind = Fin (real i), year = Fin 2005, psu = Num (Fin 1), marst = Str ''married'',
      h5 = Str ''female'', h6 = Fin 1965, h7_2 = Num (Fin 10), m1 = Fin 70, m2 = Fin 170,
      o38a = Fin 8, j57 = Fin 1000, j59 = Fin 160\<rparr>"

definition counter_generator :: "nat generator" where
  "counter_generator =
     \<lparr>gen_choice = (\<lambda>r idx n. (take n idx, Suc r)), gen_normal = (\<lambda>r. (Fin (real r), Suc r))\<rparr>"

definition result_example :: mixedlm_result where
  "result_example =
     \<lparr>res_params = [(''Intercept'', Fin 25), (''age_cen'', Fin (1/10)), (''idind Var'', Fin 4)],
      res_scale = Fin 12\<rparr>"

definition fit_example :: "mixedlm_call \<Rightarrow> error + mixedlm_result" where
  "fit_example c = Inr result_example"

definition parse_example :: "string \<Rightarrow> fval option" where
  "parse_example t = None"

text \<open>The state that the run on the sample data leaves, with the generator in state \<open>r\<close>.\<close>

definition rlms_state_example :: "nat \<Rightarrow> nat rlms_globals" where
  "rlms_state_example r =
     \<lparr>g_df = Some (map rlms_row_example [0..<2000]),
      g_dx = Some (map (\<lambda>i. rlms_select (rlms_row_example i)) [0..<2000]),
      g_year_mean = Some (Fin 2005), g_age_mean = Some (Fin 40),
      g_result1 = Some result_example, g_pa = Some (res_params result_example), g_rng = r\<rparr>"

section \<open>Estimates the notebooks compute from library results\<close>

text \<open>
  The cell of the NHANES hazard curves. It binds the global \<open>s\<close>, calls \<open>hazard(s)\<close> and
  hands the log hazards and the times in years to the library's smoother:
  \<^verbatim>\<open>
      s = sm.SurvfuncRight(dx.loc[:, "end"], dx.loc[:, "mortstat"],
                     entry=dx.loc[:, "age_int"])
      tm, hz = hazard(s)
      ha = sm.nonparametric.lowess(np.log(hz), tm/12)
      plt.plot(ha[:, 0], ha[:, 1], lw=3, label=sex[female])
  \<close>
  The library routines are the parameters \<open>SurvfuncRight\<close> and \<open>lowess\<close>; \<open>lowess\<close>
  returns the rows of an array of two columns.
\<close>

definition nhanes_hazard_plot ::
  "(survfunc_call \<Rightarrow> error + survfunc) \<Rightarrow> (fval list \<Rightarrow> fval list \<Rightarrow> error + (fval \<times> fval) list)
   \<Rightarrow> survfunc_call \<Rightarrow> globals \<Rightarrow> error + (globals \<times> (fval list \<times> fval list))" where
  "nhanes_hazard_plot SurvfuncRight lowess c g =
     (case SurvfuncRight c of
        Inl e \<Rightarrow> Inl e
      | Inr s \<Rightarrow>
          (let g' = g\<lparr>g_s := Some s\<rparr>
           in case hazard g' s of
                Inl e \<Rightarrow> Inl e
              | Inr (tm, hz) \<Rightarrow>
                  (case lowess (map flog hz) (map (\<lambda>t. fdiv t (Fin 12)) tm) of
                     Inl e \<Rightarrow> Inl e
                   | Inr ha \<Rightarrow> Inr (g', (map fst ha, map snd ha)))))"

fun nhanes_hazard_loop ::
  "(survfunc_call \<Rightarrow> error + survfunc) \<Rightarrow> (fval list \<Rightarrow> fval list \<Rightarrow> error + (fval \<times> fval) list)
   \<Rightarrow> survfunc_call list \<Rightarrow> globals \<Rightarrow> error + (globals \<times> (fval list \<times> fval list) list)" where
  "nhanes_hazard_loop SurvfuncRight lowess [] g = Inr (g, [])"
| "nhanes_hazard_loop SurvfuncRight lowess (c # cs) g =
     (case nhanes_hazard_plot SurvfuncRight lowess c g of
        Inl e \<Rightarrow> Inl e
      | Inr (g', curve) \<Rightarrow>
          (case nhanes_hazard_loop SurvfuncRight lowess cs g' of
             Inl e \<Rightarrow> Inl e
           | Inr (g'', curves) \<Rightarrow> Inr (g'', curve # curves)))"

definition nhanes_hazard_cell ::
  "(survfunc_call \<Rightarrow> error + survfunc) \<Rightarrow> (fval list \<Rightarrow> fval list \<Rightarrow> error + (fval \<times> fval) list)
   \<Rightarrow> nhanes_row list \<Rightarrow> globals \<Rightarrow> error + (globals \<times> (fval list \<times> fval list) list)" where
  "nhanes_hazard_cell SurvfuncRight lowess df g =
     nhanes_hazard_loop SurvfuncRight lowess (nhanes_sex_calls df) g"

text \<open>
  The smoothed curve in words: the smoother applied to the log hazards of
  \<open>log_hazard_curve\<close> against its times divided by 12.
\<close>

definition smoothed_hazard_curve ::
  "(fval list \<Rightarrow> fval list \<Rightarrow> (fval \<times> fval) list) \<Rightarrow> survfunc \<Rightarrow> fval list \<times> fval list" where
  "smoothed_hazard_curve low s =
     (let ha = low (snd (log_hazard_curve s))
                   (map (\<lambda>t. fdiv t (Fin 12)) (fst (log_hazard_curve s)))
      in (map fst ha, map snd ha))"

text \<open>
  \<open>a / b\<close> on two arrays of one dimension: elementwise on equal lengths, an array of one
  element is stretched, any other pair of lengths raises ValueError.
\<close>

definition np_divide :: "fval list \<Rightarrow> fval list \<Rightarrow> error + fval list" where
  "np_divide a b =
     (if length a = length b then Inr (map2 fdiv a b)
      else if length a = 1 then Inr (map (\<lambda>v. fdiv (hd a) v) b)
      else if length b = 1 then Inr (map (\<lambda>v. fdiv v (hd b)) a)
      else Inl ValueError)"

text \<open>\<open>plt.plot(x, y)\<close> raises ValueError when the two arrays differ in length.\<close>

definition plt_plot :: "fval list \<Rightarrow> fval list \<Rightarrow> error + (fval list \<times> fval list)" where
  "plt_plot x y = (if length x \<noteq> length y then Inl ValueError else Inr (x, y))"

text \<open>
  What the notebook reads of the result of a \<open>PHReg\<close> fit in the baseline hazard cell:
  \<open>baseline_cumulative_hazard\<close>, a list with, for each stratum, the times, the cumulative
  hazard and the survival function.
\<close>

record phreg_result =
  baseline_cumulative_hazard :: "(fval list \<times> fval list \<times> fval list) list"

text \<open>
  \<^verbatim>\<open>
  bhaz = result3.baseline_cumulative_hazard[0]
  x = bhaz[0]
  y = bhaz[1]
  haz = np.diff(y, 1) / np.diff(x, 1)
  plt.plot(x[0:-1], haz, lw=3)
  \<close>
  The argument is the fit \<open>result3\<close> that the cell of the regression left.
\<close>

definition baseline_hazard_cell :: "phreg_result \<Rightarrow> error + (fval list \<times> fval list)" where
  "baseline_hazard_cell result3 =
     (case baseline_cumulative_hazard result3 of
        [] \<Rightarrow> Inl IndexError
      | bhaz # _ \<Rightarrow>
          (let x = fst bhaz; y = fst (snd bhaz)
           in then_do (np_divide (np_diff y) (np_diff x)) (\<lambda>haz. plt_plot (butlast x) haz)))"

text \<open>The difference quotients of \<open>y\<close> over \<open>x\<close> in words.\<close>

definition difference_quotients :: "fval list \<Rightarrow> fval list \<Rightarrow> fval list" where
  "difference_quotients x y =
     map (\<lambda>i. fdiv (fsub (y ! Suc i) (y ! i)) (fsub (x ! Suc i) (x ! i))) [0..<length x - 1]"

text \<open>A stand-in for the smoother that returns the points it is given.\<close>

definition zip_smoother :: "fval list \<Rightarrow> fval list \<Rightarrow> (fval \<times> fval) list" where
  "zip_smoother lh t = zip t lh"

section \<open>The files the notebooks read\<close>

text \<open>
  The calls that read a file, with the path, and for \<open>pd.read_fwf\<close> the \<open>compression\<close>
  argument. \<open>pd.read_csv\<close> is called without one and infers the compression from the
  extension of the path.
\<close>

datatype read_call =
  Read_excel string | Read_stata string | Read_csv string | Read_fwf string string

text \<open>\<open>os.path.join(a, b)\<close> on two components.\<close>

definition path_join :: "string \<Rightarrow> string \<Rightarrow> string" where
  "path_join a b =
     (if take 1 b = ''/'' then b
      else if a = [] \<or> drop (length a - 1) a = ''/'' then a @ b
      else a @ ''/'' @ b)"

text \<open>
  \<^verbatim>\<open>
  if False:
      # Change the path to point to the data file
      df = pd.read_excel("/nfs/kshedden/Schich/SchichDataS1_FB.xlsx")
  \<close>
\<close>

definition schich_conversion_reads :: "read_call list" where
  "schich_conversion_reads =
     (if False then [Read_excel ''/nfs/kshedden/Schich/SchichDataS1_FB.xlsx''] else [])"

definition dpath :: string where
  "dpath = ''/nfs/kshedden/NHANES/''"

text \<open>
  \<^verbatim>\<open>
  df = pd.read_csv("schich.csv.gz")
  fname = "NHANES_III_MORT_2011_PUBLIC.dat.gz"
  f = os.path.join(dpath, fname)
  surv = pd.read_fwf(f, colspecs=colspecs, names=names, compression="gzip")
  fname = "adult.dat.gz"
  f = os.path.join(dpath, fname)
  df = pd.read_fwf(f, colspecs=colspecs, names=names, compression="gzip")
  \<close>
\<close>

definition survival_reads :: "read_call list" where
  "survival_reads =
     schich_conversion_reads
     @ [Read_csv ''schich.csv.gz'',
        Read_fwf (path_join dpath ''NHANES_III_MORT_2011_PUBLIC.dat.gz'') ''gzip'',
        Read_fwf (path_join dpath ''adult.dat.gz'') ''gzip'']"

text \<open>
  \<^verbatim>\<open>
  if False: # Do not run by default, change False->True to run
      df = pd.read_stata("RLMS_IND_1994_2015_v2_STATA.dta", columns=cols)
  \<close>
\<close>

definition rlms_conversion_reads :: "read_call list" where
  "rlms_conversion_reads =
     (if False then [Read_stata ''RLMS_IND_1994_2015_v2_STATA.dta''] else [])"

text \<open>\<^verbatim>\<open>df = pd.read_csv("/nfs/kshedden/RLMS/rlms.csv.gz")\<close>\<close>

definition rlms_reads :: "read_call list" where
  "rlms_reads = rlms_conversion_reads @ [Read_csv ''/nfs/kshedden/RLMS/rlms.csv.gz'']"

definition ends_with :: "string \<Rightarrow> string \<Rightarrow> bool" where
  "ends_with sfx p = (length sfx \<le> length p \<and> drop (length p - length sfx) p = sfx)"

text \<open>A path with a scheme (\<open>http://\<close>, \<open>s3://\<close>, ...) is a URL, not a local path.\<close>

fun has_scheme :: "string \<Rightarrow> bool" where
  "has_scheme [] = False"
| "has_scheme (c # cs) = (take 3 (c # cs) = ''://'' \<or> has_scheme cs)"

text \<open>
  A read of a gzip-compressed csv or fixed-width text file at a local path.
\<close>

fun gzip_local_text :: "read_call \<Rightarrow> bool" where
  "gzip_local_text (Read_csv p) = (ends_with ''.gz'' p \<and> \<not> has_scheme p)"
| "gzip_local_text (Read_fwf p compression) = (compression = ''gzip'' \<and> \<not> has_scheme p)"
| "gzip_local_text (Read_excel p) = False"
| "gzip_local_text (Read_stata p) = False"

section \<open>Properties of the hazard function\<close>

lemma fneg_fsub: "fneg (fsub a b) = fsub b a"
  by (cases a; cases b) (simp_all add: fsub_def)

lemma fgt_fsub_pos: "fgt b a \<Longrightarrow> fgt (fsub b a) (Fin 0)"
  by (cases a; cases b) (simp_all add: fsub_def)

lemma length_np_diff: "length (np_diff a) = length a - 1"
  by (simp add: np_diff_def)

lemma nth_np_diff: "i < length a - 1 \<Longrightarrow> np_diff a ! i = fsub (a ! Suc i) (a ! i)"
  by (simp add: np_diff_def nth_tl nth_butlast)

lemma mask_fst:
  "length xs = length ys \<Longrightarrow>
   map fst (filter snd (zip xs (map f ys))) = map fst (filter (\<lambda>(x, y). f y) (zip xs ys))"
  by (induction xs ys rule: list_induct2) auto

lemma mask_self: "map fst (filter snd (zip ys (map f ys))) = filter f ys"
  by (induction ys) auto

lemma retained_snd:
  "length xs = length ys \<Longrightarrow> map snd (filter (\<lambda>(x, y). f y) (zip xs ys)) = filter f ys"
  by (induction xs ys rule: list_induct2) auto

lemma length_retained:
  "length (surv_times s) = length (surv_prob s) \<Longrightarrow>
   length (retained_probs s) = length (retained_times s)"
  unfolding retained_probs_def retained_times_def
  using retained_snd[of "surv_times s" "surv_prob s" "\<lambda>p. fgt p (Fin 0)"]
  by (metis length_map)

lemma hazard_value:
  assumes "g_s g = Some s" "length (surv_times s) = length (surv_prob s)"
  shows "hazard g sf = Inr (butlast (retained_times s),
     map2 fdiv (map fneg (np_diff (map flog (retained_probs s)))) (np_diff (retained_times s)))"
  using assms
  by (simp add: hazard_def mask_index_def Let_def mask_fst mask_self
      retained_times_def retained_probs_def)

lemma retained_probs_pos: "p \<in> set (retained_probs s) \<Longrightarrow> fgt p (Fin 0)"
  by (simp add: retained_probs_def)

lemma strictly_increasingD:
  "strictly_increasing ts \<Longrightarrow> i < length ts - 1 \<Longrightarrow> fgt (ts ! Suc i) (ts ! i)"
  by (simp add: strictly_increasing_def list_all_iff)

text \<open>
  Claim C3. When the global \<open>s\<close> holds a survival function whose entries with positive
  survival probability number at least two and have strictly increasing times, \<open>hazard\<close>
  returns the pair \<open>(t, h)\<close>: \<open>t\<close> is the retained times without the last one, \<open>h\<close> is one
  shorter than the retained times, and \<open>h[i]\<close> is
  \<open>(log pr[i] - log pr[i+1]) / (t[i+1] - t[i])\<close>, a quotient with a positive denominator;
  on finite entries this is the real number given by that formula, the slope of
  \<open>-log S\<close> between consecutive retained times.
\<close>

theorem hazard_slopes:
  assumes "g_s g = Some s"
    and "length (surv_times s) = length (surv_prob s)"
    and "2 \<le> length (retained_times s)"
    and "strictly_increasing (retained_times s)"
  shows "\<exists>h. hazard g sf = Inr (butlast (retained_times s), h)
    \<and> length h = length (retained_times s) - 1
    \<and> (\<forall>i < length h.
          h ! i = fdiv (fsub (flog (retained_probs s ! i)) (flog (retained_probs s ! Suc i)))
                       (fsub (retained_times s ! Suc i) (retained_times s ! i))
        \<and> fgt (fsub (retained_times s ! Suc i) (retained_times s ! i)) (Fin 0)
        \<and> (\<forall>a b p q. retained_times s ! i = Fin a \<and> retained_times s ! Suc i = Fin b
              \<and> retained_probs s ! i = Fin p \<and> retained_probs s ! Suc i = Fin q
              \<longrightarrow> h ! i = Fin ((ln p - ln q) / (b - a))))"
proof -
  let ?t = "retained_times s" and ?pr = "retained_probs s"
  let ?h = "map2 fdiv (map fneg (np_diff (map flog ?pr))) (np_diff ?t)"
  have len: "length ?pr = length ?t" using assms(2) by (rule length_retained)
  have hz: "hazard g sf = Inr (butlast ?t, ?h)" using assms(1,2) by (rule hazard_value)
  have lh: "length ?h = length ?t - 1" by (simp add: length_np_diff len)
  have el: "?h ! i = fdiv (fsub (flog (?pr ! i)) (flog (?pr ! Suc i))) (fsub (?t ! Suc i) (?t ! i))"
    if "i < length ?t - 1" for i
    using that by (simp add: length_np_diff nth_np_diff len fneg_fsub)
  have pos: "fgt (fsub (?t ! Suc i) (?t ! i)) (Fin 0)" if "i < length ?t - 1" for i
    using strictly_increasingD[OF assms(4) that] by (rule fgt_fsub_pos)
  have fin: "?h ! i = Fin ((ln p - ln q) / (b - a))"
    if i: "i < length ?t - 1"
      and e: "?t ! i = Fin a" "?t ! Suc i = Fin b" "?pr ! i = Fin p" "?pr ! Suc i = Fin q"
    for i a b p q
  proof -
    have "?pr ! i \<in> set ?pr" "?pr ! Suc i \<in> set ?pr" using i len by simp_all
    then have "fgt (Fin p) (Fin 0)" "fgt (Fin q) (Fin 0)" using retained_probs_pos e by metis+
    moreover have "fgt (Fin b) (Fin a)" using strictly_increasingD[OF assms(4) i] e by simp
    ultimately show ?thesis using el[OF i] e by (simp add: fsub_def)
  qed
  show ?thesis using hz lh el pos fin by (intro exI[of _ ?h]) auto
qed

text \<open>
  The theorem at a survival function with times 1, 2, 3, 4 and probabilities 1, 1/2, 1/4, 0:
  the last entry is dropped by the mask, and the two slopes are \<open>ln 2\<close> and
  \<open>ln (1/2) - ln (1/4)\<close>.
\<close>

theorem hazard_slopes_witness:
  "hazard \<lparr>g_s = Some \<lparr>surv_times = [Fin 1, Fin 2, Fin 3, Fin 4],
                        surv_prob = [Fin 1, Fin (1/2), Fin (1/4), Fin 0]\<rparr>\<rparr> ()
   = Inr ([Fin 1, Fin 2], [Fin (ln 2), Fin (ln (1/2) - ln (1/4))])"
proof -
  let ?s = "\<lparr>surv_times = [Fin 1, Fin 2, Fin 3, Fin 4],
            surv_prob = [Fin 1, Fin (1/2), Fin (1/4), Fin 0]\<rparr>"
  let ?g = "\<lparr>g_s = Some ?s\<rparr>"
  have t: "retained_times ?s = [Fin 1, Fin 2, Fin 3]" by (simp add: retained_times_def)
  have p: "retained_probs ?s = [Fin 1, Fin (1/2), Fin (1/4)]" by (simp add: retained_probs_def)
  have a: "g_s ?g = Some ?s" by simp
  have b: "length (surv_times ?s) = length (surv_prob ?s)" by simp
  have c: "2 \<le> length (retained_times ?s)" by (simp add: t)
  have d: "strictly_increasing (retained_times ?s)"
    by (simp add: t strictly_increasing_def upt_rec)
  from hazard_slopes[OF a b c d, of "()"] obtain h where
    h: "hazard ?g () = Inr (butlast (retained_times ?s), h)" "length h = 2"
     "\<forall>i<2. h ! i = fdiv (fsub (flog (retained_probs ?s ! i)) (flog (retained_probs ?s ! Suc i)))
                       (fsub (retained_times ?s ! Suc i) (retained_times ?s ! i))"
    by (auto simp: t)
  from h(3) have "h ! 0 = Fin (ln 2)" "h ! 1 = Fin (ln (1/2) - ln (1/4))"
    by (simp_all add: t p fsub_def ln_div)
  with h(2) have "h = [Fin (ln 2), Fin (ln (1/2) - ln (1/4))]"
    by (cases h; cases "tl h"; cases "tl (tl h)") auto
  with h(1) show ?thesis by (simp add: t)
qed

text \<open>
  Claim C4. The value of \<open>hazard(sf)\<close> does not depend on the argument: under one global
  state, any two arguments, of any types, give the same result (the same pair, or the same
  error).
\<close>

theorem hazard_ignores_argument: "hazard g sf1 = hazard g sf2"
  by (simp add: hazard_def)

section \<open>Properties of the survival data preparation\<close>

lemma schich_prepare_mem:
  "r \<in> set (schich_prepare raw) \<longleftrightarrow> r \<in> schich_derive ` set raw \<and> fgt (lifespan r) (Fin 0)"
  by (auto simp: schich_prepare_def)

lemma nhanes_prepare_mem:
  "r \<in> set (nhanes_prepare merged) \<longleftrightarrow>
   r \<in> nhanes_derive ` set merged \<and> nhanes_complete r \<and> fgt (end_col r) (age_int r)"
  by (auto simp: nhanes_prepare_def nhanes_positive_def nhanes_dropna_def)

lemma duration_positive:
  assumes "fgt (fadd a p) a" "fadd a p \<noteq> NaN"
  shows "fsub (fadd a p) a = p \<and> fgt p (Fin 0)"
  using assms by (cases a; cases p) (simp_all add: fsub_def)

lemma fsub_zero_not_gt: "fsub a b = Fin 0 \<Longrightarrow> \<not> fgt a b"
  by (cases a; cases b) (simp_all add: fsub_def)

lemma nhanes_row_duration:
  assumes "r \<in> set (nhanes_prepare merged)"
  shows "age_int r = fmul (Fin 12) (age r) \<and> end_col r = fadd (age_int r) (permth_int r)
       \<and> fsub (end_col r) (age_int r) = permth_int r \<and> fgt (permth_int r) (Fin 0)"
proof -
  from assms obtain m where m: "r = nhanes_derive m" and c: "nhanes_complete r"
    and g: "fgt (end_col r) (age_int r)"
    by (auto simp: nhanes_prepare_mem)
  have e: "end_col r = fadd (age_int r) (permth_int r)"
    and a: "age_int r = fmul (Fin 12) (age r)"
    by (simp_all add: m nhanes_derive_def)
  from c have "end_col r \<noteq> NaN" by (simp add: nhanes_complete_def isna_def)
  with g e duration_positive[of "age_int r" "permth_int r"] a show ?thesis by simp
qed

text \<open>
  Claim C1, as amended. The notebooks' own code does filter rows by duration, on top of
  the missing-value filtering: the notable-people frame keeps exactly the rows with
  \<open>lifespan > 0\<close>, and the NHANES frame exactly the complete rows with \<open>end > age_int\<close>.
  No record of zero duration is left in either frame when the library is called.
\<close>

theorem own_filters_reject_zero_durations:
  "set (schich_prepare raw) = {r \<in> schich_derive ` set raw. fgt (lifespan r) (Fin 0)}
   \<and> set (nhanes_prepare merged)
       = {r \<in> nhanes_derive ` set merged. nhanes_complete r \<and> fgt (end_col r) (age_int r)}
   \<and> (\<forall>r \<in> set (schich_prepare raw). lifespan r \<noteq> Fin 0)
   \<and> (\<forall>r \<in> set (nhanes_prepare merged). fsub (end_col r) (age_int r) \<noteq> Fin 0)"
proof (intro conjI ballI)
  show "set (schich_prepare raw) = {r \<in> schich_derive ` set raw. fgt (lifespan r) (Fin 0)}"
    using schich_prepare_mem by blast
  show "set (nhanes_prepare merged)
       = {r \<in> nhanes_derive ` set merged. nhanes_complete r \<and> fgt (end_col r) (age_int r)}"
    using nhanes_prepare_mem by blast
next
  fix r assume "r \<in> set (schich_prepare raw)"
  then have "fgt (lifespan r) (Fin 0)" by (simp add: schich_prepare_mem)
  then show "lifespan r \<noteq> Fin 0" by auto
next
  fix r assume "r \<in> set (nhanes_prepare merged)"
  then have "fgt (end_col r) (age_int r)" by (simp add: nhanes_prepare_mem)
  then show "fsub (end_col r) (age_int r) \<noteq> Fin 0" using fsub_zero_not_gt by blast
qed

text \<open>
  The theorem on two small frames: of a person dead at 67 and one dead in the year of
  birth, and of a subject followed for 163 months and one followed for none, the filters
  keep the first each.
\<close>

theorem own_filters_reject_zero_durations_witness:
  "schich_prepare [schich_example (Fin 1900) (Fin 1967), schich_example (Fin 1900) (Fin 1900)]
     = [schich_derive (schich_example (Fin 1900) (Fin 1967))]
   \<and> lifespan (schich_derive (schich_example (Fin 1900) (Fin 1967))) \<noteq> Fin 0
   \<and> nhanes_prepare [nhanes_example (Fin 21) (Fin 163), nhanes_example (Fin 30) (Fin 0)]
     = [nhanes_derive (nhanes_example (Fin 21) (Fin 163))]
   \<and> fsub (end_col (nhanes_derive (nhanes_example (Fin 21) (Fin 163))))
           (age_int (nhanes_derive (nhanes_example (Fin 21) (Fin 163)))) \<noteq> Fin 0"
proof -
  let ?raw = "[schich_example (Fin 1900) (Fin 1967), schich_example (Fin 1900) (Fin 1900)]"
  let ?ms = "[nhanes_example (Fin 21) (Fin 163), nhanes_example (Fin 30) (Fin 0)]"
  have s: "schich_prepare ?raw = [schich_derive (schich_example (Fin 1900) (Fin 1967))]"
    by (simp add: schich_prepare_def schich_derive_def schich_example_def fsub_def)
  have n: "nhanes_prepare ?ms = [nhanes_derive (nhanes_example (Fin 21) (Fin 163))]"
    by (simp add: nhanes_prepare_def nhanes_positive_def nhanes_dropna_def nhanes_derive_def
        nhanes_complete_def isna_def nhanes_example_def)
  from own_filters_reject_zero_durations[of ?raw ?ms] s n show ?thesis by simp
qed

text \<open>
  Claim C1 as stated fails: a complete record of zero duration passes the missing-value
  filter and is removed by the notebook's own row filter \<open>df.end > df.age_int\<close>, before
  any library routine is called.
\<close>

theorem nhanes_zero_duration_counterexample:
  "nhanes_dropna [nhanes_derive (nhanes_example (Fin 30) (Fin 0))]
     = [nhanes_derive (nhanes_example (Fin 30) (Fin 0))]
   \<and> fsub (end_col (nhanes_derive (nhanes_example (Fin 30) (Fin 0))))
           (age_int (nhanes_derive (nhanes_example (Fin 30) (Fin 0)))) = Fin 0
   \<and> nhanes_prepare [nhanes_example (Fin 30) (Fin 0)] = []"
  by (simp add: nhanes_prepare_def nhanes_positive_def nhanes_dropna_def nhanes_derive_def
      nhanes_complete_def isna_def nhanes_example_def fsub_def)

text \<open>
  Claim C5. The three proportional-hazards fits of the NHANES analysis pass the column
  \<open>age_int\<close> of the frame as entry time, which is twelve times the age in years at the
  interview; the first fit has no strata, the second takes the column \<open>state\<close> and the
  third the column \<open>county\<close> as strata.
\<close>

theorem nhanes_phreg_entry_and_strata:
  "ph_entry (nhanes_model1 (nhanes_prepare merged)) = Some (map age_int (nhanes_prepare merged))
   \<and> ph_entry (nhanes_model2 (nhanes_prepare merged)) = Some (map age_int (nhanes_prepare merged))
   \<and> ph_entry (nhanes_model3 (nhanes_prepare merged)) = Some (map age_int (nhanes_prepare merged))
   \<and> map age_int (nhanes_prepare merged)
       = map (\<lambda>r. fmul (Fin 12) (age r)) (nhanes_prepare merged)
   \<and> ph_strata (nhanes_model1 (nhanes_prepare merged)) = None
   \<and> ph_strata (nhanes_model2 (nhanes_prepare merged)) = Some (map state (nhanes_prepare merged))
   \<and> ph_strata (nhanes_model3 (nhanes_prepare merged)) = Some (map county (nhanes_prepare merged))"
proof -
  have "age_int r = fmul (Fin 12) (age r)" if "r \<in> set (nhanes_prepare merged)" for r
    using nhanes_row_duration[OF that] by blast
  then have "map age_int (nhanes_prepare merged)
       = map (\<lambda>r. fmul (Fin 12) (age r)) (nhanes_prepare merged)"
    by simp
  then show ?thesis
    by (simp add: nhanes_model1_def nhanes_model2_def nhanes_model3_def)
qed

text \<open>
  Claim C10. Every row of the merged frame gets \<open>age_int = 12 * age\<close> and
  \<open>end = age_int + permth_int\<close>. After the missing-value filter and the filter
  \<open>end > age_int\<close>, every row has \<open>end - age_int = permth_int > 0\<close>. Each of the two
  \<open>SurvfuncRight\<close> calls passes, for the rows \<open>dx\<close> of one sex, the column \<open>end\<close> as
  time, the column \<open>mortstat\<close> as status and the column \<open>age_int\<close> as entry time, so
  that at every position \<open>time - entry\<close> is the \<open>permth_int\<close> of that row and is positive.
  Each of the three \<open>PHReg\<close> fits gets the filtered frame with its column \<open>age_int\<close> as
  entry time, every row of which has \<open>end - age_int = permth_int > 0\<close>.
\<close>

theorem nhanes_durations_positive:
  "(\<forall>m \<in> set merged.
       age_int (nhanes_derive m) = fmul (Fin 12) (age (nhanes_derive m))
     \<and> end_col (nhanes_derive m) = fadd (age_int (nhanes_derive m)) (permth_int (nhanes_derive m)))
   \<and> (\<forall>r \<in> set (nhanes_prepare merged).
         fsub (end_col r) (age_int r) = permth_int r \<and> fgt (permth_int r) (Fin 0))
   \<and> nhanes_sex_calls (nhanes_prepare merged)
       = [nhanes_sex_call (nhanes_prepare merged) 0, nhanes_sex_call (nhanes_prepare merged) 1]
   \<and> (\<forall>f. sf_time (nhanes_sex_call (nhanes_prepare merged) f)
             = map end_col (filter (\<lambda>r. female r = f) (nhanes_prepare merged))
         \<and> sf_status (nhanes_sex_call (nhanes_prepare merged) f)
             = map mortstat (filter (\<lambda>r. female r = f) (nhanes_prepare merged))
         \<and> sf_entry (nhanes_sex_call (nhanes_prepare merged) f)
             = Some (map age_int (filter (\<lambda>r. female r = f) (nhanes_prepare merged)))
         \<and> (\<forall>i < length (filter (\<lambda>r. female r = f) (nhanes_prepare merged)).
               fsub (sf_time (nhanes_sex_call (nhanes_prepare merged) f) ! i)
                    (map age_int (filter (\<lambda>r. female r = f) (nhanes_prepare merged)) ! i)
                 = permth_int (filter (\<lambda>r. female r = f) (nhanes_prepare merged) ! i)
             \<and> fgt (permth_int (filter (\<lambda>r. female r = f) (nhanes_prepare merged) ! i)) (Fin 0)))
   \<and> (\<forall>c \<in> {nhanes_model1 (nhanes_prepare merged), nhanes_model2 (nhanes_prepare merged),
               nhanes_model3 (nhanes_prepare merged)}.
         ph_data c = nhanes_prepare merged \<and> ph_entry c = Some (map age_int (ph_data c))
         \<and> ph_formula c = ''end ~ female + rural + C(region) + poverty''
         \<and> ph_status c = Some ''mortstat''
         \<and> (\<forall>r \<in> set (ph_data c).
               fsub (end_col r) (age_int r) = permth_int r \<and> fgt (permth_int r) (Fin 0)))"
proof -
  let ?P = "nhanes_prepare merged"
  have rows: "fsub (end_col r) (age_int r) = permth_int r \<and> fgt (permth_int r) (Fin 0)"
    if "r \<in> set ?P" for r
    using nhanes_row_duration[OF that] by blast
  have p1: "\<forall>m \<in> set merged.
       age_int (nhanes_derive m) = fmul (Fin 12) (age (nhanes_derive m))
     \<and> end_col (nhanes_derive m) = fadd (age_int (nhanes_derive m)) (permth_int (nhanes_derive m))"
    by (simp add: nhanes_derive_def)
  have p2: "\<forall>r \<in> set ?P. fsub (end_col r) (age_int r) = permth_int r \<and> fgt (permth_int r) (Fin 0)"
    using rows by blast
  have p3: "nhanes_sex_calls ?P = [nhanes_sex_call ?P 0, nhanes_sex_call ?P 1]"
    by (simp add: nhanes_sex_calls_def)
  have p4: "sf_time (nhanes_sex_call ?P f) = map end_col (filter (\<lambda>r. female r = f) ?P)
         \<and> sf_status (nhanes_sex_call ?P f) = map mortstat (filter (\<lambda>r. female r = f) ?P)
         \<and> sf_entry (nhanes_sex_call ?P f) = Some (map age_int (filter (\<lambda>r. female r = f) ?P))
         \<and> (\<forall>i < length (filter (\<lambda>r. female r = f) ?P).
               fsub (sf_time (nhanes_sex_call ?P f) ! i)
                    (map age_int (filter (\<lambda>r. female r = f) ?P) ! i)
                 = permth_int (filter (\<lambda>r. female r = f) ?P ! i)
             \<and> fgt (permth_int (filter (\<lambda>r. female r = f) ?P ! i)) (Fin 0))" for f
  proof -
    let ?dx = "filter (\<lambda>r. female r = f) ?P"
    let ?c = "nhanes_sex_call ?P f"
    have t: "sf_time ?c = map end_col ?dx" and st: "sf_status ?c = map mortstat ?dx"
      and e: "sf_entry ?c = Some (map age_int ?dx)"
      by (simp_all add: nhanes_sex_call_def Let_def)
    have "fsub (sf_time ?c ! i) (map age_int ?dx ! i) = permth_int (?dx ! i)
        \<and> fgt (permth_int (?dx ! i)) (Fin 0)" if i: "i < length ?dx" for i
    proof -
      from i have "?dx ! i \<in> set ?dx" by (rule nth_mem)
      then have "?dx ! i \<in> set ?P" by simp
      from rows[OF this] show ?thesis using i by (simp add: t)
    qed
    with t st e show ?thesis by blast
  qed
  have p5: "\<forall>c \<in> {nhanes_model1 ?P, nhanes_model2 ?P, nhanes_model3 ?P}.
         ph_data c = ?P \<and> ph_entry c = Some (map age_int (ph_data c))
         \<and> ph_formula c = ''end ~ female + rural + C(region) + poverty''
         \<and> ph_status c = Some ''mortstat''
         \<and> (\<forall>r \<in> set (ph_data c).
               fsub (end_col r) (age_int r) = permth_int r \<and> fgt (permth_int r) (Fin 0))"
    using p2 by (simp add: nhanes_model1_def nhanes_model2_def nhanes_model3_def nhanes_fml_def)
  from p1 p2 p3 p4 p5 show ?thesis by blast
qed

text \<open>
  The theorem on a frame of three women: one followed for 163 months from the age of 21,
  one followed for no time, one with a missing follow-up time. Only the first is left. The
  \<open>SurvfuncRight\<close> call for the women passes the time 415, the status 0 and the entry time
  252, a duration of 163 months; the call for the men passes empty columns; the first
  \<open>PHReg\<close> fit gets the one row with the entry time 252.
\<close>

theorem nhanes_durations_positive_witness:
  "nhanes_prepare [nhanes_example (Fin 21) (Fin 163), nhanes_example (Fin 30) (Fin 0),
      nhanes_example (Fin 40) NaN] = [nhanes_derive (nhanes_example (Fin 21) (Fin 163))]
   \<and> age_int (nhanes_derive (nhanes_example (Fin 21) (Fin 163))) = Fin 252
   \<and> end_col (nhanes_derive (nhanes_example (Fin 21) (Fin 163))) = Fin 415
   \<and> nhanes_sex_calls [nhanes_derive (nhanes_example (Fin 21) (Fin 163))]
       = [\<lparr>sf_time = [], sf_status = [], sf_entry = Some [], sf_title = None\<rparr>,
          \<lparr>sf_time = [Fin 415], sf_status = [Fin 0], sf_entry = Some [Fin 252],
           sf_title = None\<rparr>]
   \<and> fsub (Fin 415) (Fin 252) = permth_int (nhanes_derive (nhanes_example (Fin 21) (Fin 163)))
   \<and> fgt (permth_int (nhanes_derive (nhanes_example (Fin 21) (Fin 163)))) (Fin 0)
   \<and> ph_entry (nhanes_model1 [nhanes_derive (nhanes_example (Fin 21) (Fin 163))])
       = Some [Fin 252]"
proof -
  let ?ms = "[nhanes_example (Fin 21) (Fin 163), nhanes_example (Fin 30) (Fin 0),
      nhanes_example (Fin 40) NaN]"
  let ?r = "nhanes_derive (nhanes_example (Fin 21) (Fin 163))"
  have p: "nhanes_prepare ?ms = [?r]"
    by (simp add: nhanes_prepare_def nhanes_positive_def nhanes_dropna_def nhanes_derive_def
        nhanes_complete_def isna_def nhanes_example_def)
  note t = nhanes_durations_positive[of ?ms, unfolded p]
  have m: "nhanes_example (Fin 21) (Fin 163) \<in> set ?ms" by simp
  have a: "age ?r = Fin 21" and b: "permth_int ?r = Fin 163" and f: "female ?r = 1"
    and ms: "mortstat ?r = Fin 0"
    by (simp_all add: nhanes_derive_def nhanes_example_def)
  from t m have "age_int ?r = fmul (Fin 12) (age ?r)"
    and "end_col ?r = fadd (age_int ?r) (permth_int ?r)"
    by blast+
  then have ai: "age_int ?r = Fin 252" and ec: "end_col ?r = Fin 415"
    by (simp_all add: a b)
  have d1: "filter (\<lambda>r. female r = 1) [?r] = [?r]" and d0: "filter (\<lambda>r. female r = 0) [?r] = []"
    by (simp_all add: f)
  from t have calls: "nhanes_sex_calls [?r] = [nhanes_sex_call [?r] 0, nhanes_sex_call [?r] 1]"
    by blast
  from t have tf: "sf_time (nhanes_sex_call [?r] f') = map end_col (filter (\<lambda>r. female r = f') [?r])
      \<and> sf_status (nhanes_sex_call [?r] f') = map mortstat (filter (\<lambda>r. female r = f') [?r])
      \<and> sf_entry (nhanes_sex_call [?r] f') = Some (map age_int (filter (\<lambda>r. female r = f') [?r]))
      \<and> (\<forall>i < length (filter (\<lambda>r. female r = f') [?r]).
               fsub (sf_time (nhanes_sex_call [?r] f') ! i)
                    (map age_int (filter (\<lambda>r. female r = f') [?r]) ! i)
                 = permth_int (filter (\<lambda>r. female r = f') [?r] ! i)
             \<and> fgt (permth_int (filter (\<lambda>r. female r = f') [?r] ! i)) (Fin 0))" for f'
    by blast
  from tf[of 1] have c1: "sf_time (nhanes_sex_call [?r] 1) = [Fin 415]"
      "sf_status (nhanes_sex_call [?r] 1) = [Fin 0]"
      "sf_entry (nhanes_sex_call [?r] 1) = Some [Fin 252]"
    unfolding d1 by (simp_all add: ai ec ms)
  from tf[of 0] have c0: "sf_time (nhanes_sex_call [?r] 0) = []"
      "sf_status (nhanes_sex_call [?r] 0) = []"
      "sf_entry (nhanes_sex_call [?r] 0) = Some []"
    unfolding d0 by simp_all
  have ti: "sf_title (nhanes_sex_call [?r] f') = None" for f'
    by (simp add: nhanes_sex_call_def Let_def)
  from tf[of 1] have "\<forall>i < length [?r].
      fsub (sf_time (nhanes_sex_call [?r] 1) ! i) (map age_int [?r] ! i) = permth_int ([?r] ! i)
      \<and> fgt (permth_int ([?r] ! i)) (Fin 0)"
    unfolding d1 by blast
  then have "fsub (sf_time (nhanes_sex_call [?r] 1) ! 0) (map age_int [?r] ! 0)
        = permth_int ([?r] ! 0) \<and> fgt (permth_int ([?r] ! 0)) (Fin 0)"
    by (rule allE[where x=0]) simp
  then have du: "fsub (Fin 415) (Fin 252) = permth_int ?r" "fgt (permth_int ?r) (Fin 0)"
    by (simp_all add: c1 ai)
  from t have "ph_entry (nhanes_model1 [?r]) = Some (map age_int (ph_data (nhanes_model1 [?r])))"
    "ph_data (nhanes_model1 [?r]) = [?r]"
    by blast+
  then have pe: "ph_entry (nhanes_model1 [?r]) = Some [Fin 252]" by (simp add: ai)
  have e0: "nhanes_sex_call [?r] 0 = \<lparr>sf_time = [], sf_status = [], sf_entry = Some [], sf_title = None\<rparr>"
    using c0 ti[of 0] by (cases "nhanes_sex_call [?r] 0") simp
  have e1: "nhanes_sex_call [?r] 1 = \<lparr>sf_time = [Fin 415], sf_status = [Fin 0],
      sf_entry = Some [Fin 252], sf_title = None\<rparr>"
    using c1 ti[of 1] by (cases "nhanes_sex_call [?r] 1") simp
  show ?thesis using p ai ec calls e0 e1 du pe by simp
qed

section \<open>Estimates computed by the notebooks\<close>

lemma hazard_plot_curve:
  assumes "SurvfuncRight c = Inr s" "length (surv_times s) = length (surv_prob s)"
  shows "hazard_plot SurvfuncRight c g = Inr (g\<lparr>g_s := Some s\<rparr>, log_hazard_curve s)"
proof -
  let ?t = "retained_times s" and ?pr = "retained_probs s"
  let ?h = "map2 fdiv (map fneg (np_diff (map flog ?pr))) (np_diff ?t)"
  have len: "length ?pr = length ?t" using assms(2) by (rule length_retained)
  have "hazard (g\<lparr>g_s := Some s\<rparr>) s = Inr (butlast ?t, ?h)"
    using hazard_value[of "g\<lparr>g_s := Some s\<rparr>" s s] assms(2) by simp
  moreover have "map flog ?h = snd (log_hazard_curve s)"
    by (rule nth_equalityI)
       (simp_all add: log_hazard_curve_def Let_def length_np_diff nth_np_diff len fneg_fsub)
  moreover have "fst (log_hazard_curve s) = butlast ?t"
    by (simp add: log_hazard_curve_def Let_def)
  ultimately show ?thesis
    using assms(1) by (simp add: hazard_plot_def Let_def prod_eq_iff)
qed

lemma hazard_log_curve:
  assumes "g_s g = Some s" "length (surv_times s) = length (surv_prob s)"
  shows "\<exists>tm hz. hazard g sf = Inr (tm, hz) \<and> (tm, map flog hz) = log_hazard_curve s"
proof -
  let ?t = "retained_times s" and ?pr = "retained_probs s"
  let ?h = "map2 fdiv (map fneg (np_diff (map flog ?pr))) (np_diff ?t)"
  have len: "length ?pr = length ?t" using assms(2) by (rule length_retained)
  have "hazard g sf = Inr (butlast ?t, ?h)" using assms by (rule hazard_value)
  moreover have "map flog ?h = snd (log_hazard_curve s)"
    by (rule nth_equalityI)
       (simp_all add: log_hazard_curve_def Let_def length_np_diff nth_np_diff len fneg_fsub)
  moreover have "fst (log_hazard_curve s) = butlast ?t"
    by (simp add: log_hazard_curve_def Let_def)
  ultimately show ?thesis by (simp add: prod_eq_iff)
qed

lemma hazard_loop_curves:
  assumes "\<forall>c. length (surv_times (lib c)) = length (surv_prob (lib c))"
  shows "hazard_loop (\<lambda>c. Inr (lib c)) cs g
     = Inr (if cs = [] then g else g\<lparr>g_s := Some (lib (last cs))\<rparr>,
            map (\<lambda>c. log_hazard_curve (lib c)) cs)"
  using assms by (induction cs arbitrary: g) (simp_all add: hazard_plot_curve)

lemma nhanes_hazard_plot_curve:
  assumes "length (surv_times (lib c)) = length (surv_prob (lib c))"
  shows "nhanes_hazard_plot (\<lambda>c. Inr (lib c)) (\<lambda>lh t. Inr (low lh t)) c g
     = Inr (g\<lparr>g_s := Some (lib c)\<rparr>, smoothed_hazard_curve low (lib c))"
proof -
  obtain tm hz where "hazard (g\<lparr>g_s := Some (lib c)\<rparr>) (lib c) = Inr (tm, hz)"
    and "(tm, map flog hz) = log_hazard_curve (lib c)"
    using hazard_log_curve[of "g\<lparr>g_s := Some (lib c)\<rparr>" "lib c" "lib c"] assms by auto
  then show ?thesis
    by (simp add: nhanes_hazard_plot_def smoothed_hazard_curve_def Let_def prod_eq_iff)
qed

lemma nhanes_hazard_loop_curves:
  assumes "\<forall>c. length (surv_times (lib c)) = length (surv_prob (lib c))"
  shows "nhanes_hazard_loop (\<lambda>c. Inr (lib c)) (\<lambda>lh t. Inr (low lh t)) cs g
     = Inr (if cs = [] then g else g\<lparr>g_s := Some (lib (last cs))\<rparr>,
            map (\<lambda>c. smoothed_hazard_curve low (lib c)) cs)"
  using assms by (induction cs arbitrary: g) (simp_all add: nhanes_hazard_plot_curve)

lemma baseline_hazard_quotients:
  assumes "length x = length y"
  shows "baseline_hazard_cell \<lparr>baseline_cumulative_hazard = (x, y, sv) # rest\<rparr>
     = Inr (butlast x, difference_quotients x y)"
proof -
  have "map2 fdiv (np_diff y) (np_diff x) = difference_quotients x y"
    using assms
    by (intro nth_equalityI)
       (simp_all add: difference_quotients_def length_np_diff nth_np_diff)
  then show ?thesis
    using assms
    by (simp add: baseline_hazard_cell_def np_divide_def plt_plot_def then_do_def
        length_np_diff difference_quotients_def)
qed

lemma icc_value:
  assumes "g_result1 g = Some res" "map_of (res_params res) ''idind Var'' = Some v"
  shows "rlms_icc_cell g = Inr (g\<lparr>g_pa := Some (res_params res)\<rparr>, fdiv v (fadd v (res_scale res)))"
  using assms
  by (simp add: rlms_icc_cell_def lookup_var_def series_get_def then_do_def)

lemma ln2_lt1: "ln (2::real) < 1"
proof -
  have "ln (1 + 1 :: real) \<le> 1" by (rule ln_add_one_self_le_self) simp
  moreover have "ln (2::real) \<noteq> 1" using ln_eq_minus_one[of "2::real"] by auto
  ultimately show ?thesis by simp
qed

lemma curve_example:
  "log_hazard_curve survfunc_example = ([Fin 1], [Fin (ln (ln 2 / 2))])"
proof -
  have "0 < ln (2::real) / 2" by simp
  then show ?thesis
    by (simp add: log_hazard_curve_def survfunc_example_def retained_times_def
        retained_probs_def fsub_def ln_div)
qed

text \<open>
  Claim C2, as amended. Not every estimate the notebooks present is computed by the
  library: the notebooks' own code computes at least the following from what the library
  returns, whatever the library returns (\<open>lib\<close> is any routine returning survival functions with
  arrays of equal length, \<open>low\<close> any smoother).
  \<^item> The log-hazard curves of the notable-people analysis, by sex and by era, with the
    function \<open>hazard\<close> that the notebook defines: the retained times without the last
    against the logarithm of \<open>(log pr[i] - log pr[i+1]) / (t[i+1] - t[i])\<close>.
  \<^item> The hazard curves of the NHANES analysis, for men and for women: the same log
    hazards, against the times divided by 12, handed to the library's smoother.
  \<^item> The baseline hazard, inline: the difference quotients of the baseline cumulative
    hazard \<open>y\<close> over its times \<open>x\<close>, against the times without the last, when the fit
    returns \<open>x\<close> and \<open>y\<close> of equal length.
  \<^item> The intraclass correlation, inline: \<open>v / (v + scale)\<close> for the variance \<open>v\<close> that
    the first mixed-model fit returns under the label \<open>idind Var\<close>.
\<close>

theorem hazard_estimate_is_notebook_code:
  assumes "\<forall>c. length (surv_times (lib c)) = length (surv_prob (lib c))"
    and "length x = length y"
    and "g_result1 gl = Some res"
    and "map_of (res_params res) ''idind Var'' = Some v"
  shows "schich_hazard_by_sex (\<lambda>c. Inr (lib c)) df g
       = Inr (g\<lparr>g_s := Some (lib (schich_sex_call df ''Male''))\<rparr>,
              [log_hazard_curve (lib (schich_sex_call df ''Female'')),
               log_hazard_curve (lib (schich_sex_call df ''Male''))])
     \<and> schich_hazard_by_era (\<lambda>c. Inr (lib c)) df g
       = Inr (g\<lparr>g_s := Some (lib (schich_era_call df 1500))\<rparr>,
              [log_hazard_curve (lib (schich_era_call df 0)),
               log_hazard_curve (lib (schich_era_call df 500)),
               log_hazard_curve (lib (schich_era_call df 1000)),
               log_hazard_curve (lib (schich_era_call df 1500))])
     \<and> nhanes_hazard_cell (\<lambda>c. Inr (lib c)) (\<lambda>lh t. Inr (low lh t)) ndf g
       = Inr (g\<lparr>g_s := Some (lib (nhanes_sex_call ndf 1))\<rparr>,
              [smoothed_hazard_curve low (lib (nhanes_sex_call ndf 0)),
               smoothed_hazard_curve low (lib (nhanes_sex_call ndf 1))])
     \<and> baseline_hazard_cell \<lparr>baseline_cumulative_hazard = (x, y, sv) # rest\<rparr>
       = Inr (butlast x, difference_quotients x y)
     \<and> rlms_icc_cell gl
       = Inr (gl\<lparr>g_pa := Some (res_params res)\<rparr>, fdiv v (fadd v (res_scale res)))"
proof (intro conjI)
  show "schich_hazard_by_sex (\<lambda>c. Inr (lib c)) df g
       = Inr (g\<lparr>g_s := Some (lib (schich_sex_call df ''Male''))\<rparr>,
              [log_hazard_curve (lib (schich_sex_call df ''Female'')),
               log_hazard_curve (lib (schich_sex_call df ''Male''))])"
    using hazard_loop_curves[OF assms(1), of "schich_sex_calls df" g]
    by (simp add: schich_hazard_by_sex_def schich_sex_calls_def del: hazard_loop.simps)
  show "schich_hazard_by_era (\<lambda>c. Inr (lib c)) df g
       = Inr (g\<lparr>g_s := Some (lib (schich_era_call df 1500))\<rparr>,
              [log_hazard_curve (lib (schich_era_call df 0)),
               log_hazard_curve (lib (schich_era_call df 500)),
               log_hazard_curve (lib (schich_era_call df 1000)),
               log_hazard_curve (lib (schich_era_call df 1500))])"
    using hazard_loop_curves[OF assms(1), of "schich_era_calls df" g]
    by (simp add: schich_hazard_by_era_def schich_era_calls_def del: hazard_loop.simps)
  show "nhanes_hazard_cell (\<lambda>c. Inr (lib c)) (\<lambda>lh t. Inr (low lh t)) ndf g
       = Inr (g\<lparr>g_s := Some (lib (nhanes_sex_call ndf 1))\<rparr>,
              [smoothed_hazard_curve low (lib (nhanes_sex_call ndf 0)),
               smoothed_hazard_curve low (lib (nhanes_sex_call ndf 1))])"
    using nhanes_hazard_loop_curves[OF assms(1), of low "nhanes_sex_calls ndf" g]
    by (simp add: nhanes_hazard_cell_def nhanes_sex_calls_def del: nhanes_hazard_loop.simps)
  show "baseline_hazard_cell \<lparr>baseline_cumulative_hazard = (x, y, sv) # rest\<rparr>
       = Inr (butlast x, difference_quotients x y)"
    using assms(2) by (rule baseline_hazard_quotients)
  show "rlms_icc_cell gl
       = Inr (gl\<lparr>g_pa := Some (res_params res)\<rparr>, fdiv v (fadd v (res_scale res)))"
    using assms(3,4) by (rule icc_value)
qed

text \<open>
  The theorem with a library that returns the survival function with times 1, 3 and
  probabilities 1, 1/2 for every group, a smoother that returns its points, a baseline
  cumulative hazard 0, 2, 3 at the times 0, 1, 3, and a fit with variance 4 and scale 12:
  each log-hazard curve is the point \<open>(1, ln (ln 2 / 2))\<close>, each smoothed curve the point
  \<open>(1/12, ln (ln 2 / 2))\<close>, the baseline hazard is 2 and 1/2, the intraclass correlation
  1/4.
\<close>

theorem hazard_estimate_is_notebook_code_witness:
  "schich_hazard_by_sex (\<lambda>c. Inr survfunc_example) [] \<lparr>g_s = None\<rparr>
     = Inr (\<lparr>g_s = Some survfunc_example\<rparr>,
            [([Fin 1], [Fin (ln (ln 2 / 2))]), ([Fin 1], [Fin (ln (ln 2 / 2))])])
   \<and> schich_hazard_by_era (\<lambda>c. Inr survfunc_example) [] \<lparr>g_s = None\<rparr>
     = Inr (\<lparr>g_s = Some survfunc_example\<rparr>,
            [([Fin 1], [Fin (ln (ln 2 / 2))]), ([Fin 1], [Fin (ln (ln 2 / 2))]),
             ([Fin 1], [Fin (ln (ln 2 / 2))]), ([Fin 1], [Fin (ln (ln 2 / 2))])])
   \<and> nhanes_hazard_cell (\<lambda>c. Inr survfunc_example) (\<lambda>lh t. Inr (zip_smoother lh t)) []
        \<lparr>g_s = None\<rparr>
     = Inr (\<lparr>g_s = Some survfunc_example\<rparr>,
            [([Fin (1 / 12)], [Fin (ln (ln 2 / 2))]), ([Fin (1 / 12)], [Fin (ln (ln 2 / 2))])])
   \<and> baseline_hazard_cell
        \<lparr>baseline_cumulative_hazard = [([Fin 0, Fin 1, Fin 3], [Fin 0, Fin 2, Fin 3], [])]\<rparr>
     = Inr ([Fin 0, Fin 1], [Fin 2, Fin (1 / 2)])
   \<and> rlms_icc_cell ((rlms_initial (0::nat))\<lparr>g_result1 := Some result_example\<rparr>)
     = Inr ((rlms_initial 0)\<lparr>g_result1 := Some result_example,
                               g_pa := Some (res_params result_example)\<rparr>, Fin (1 / 4))"
proof -
  have a: "\<forall>c::survfunc_call. length (surv_times ((\<lambda>c. survfunc_example) c))
      = length (surv_prob ((\<lambda>c. survfunc_example) c))"
    by (simp add: survfunc_example_def)
  have b: "length [Fin 0, Fin 1, Fin 3] = length [Fin 0, Fin 2, Fin 3]" by simp
  have c: "g_result1 ((rlms_initial (0::nat))\<lparr>g_result1 := Some result_example\<rparr>)
      = Some result_example" by simp
  have d: "map_of (res_params result_example) ''idind Var'' = Some (Fin 4)"
    by (simp add: result_example_def)
  have s: "smoothed_hazard_curve zip_smoother survfunc_example
      = ([Fin (1 / 12)], [Fin (ln (ln 2 / 2))])"
    by (simp add: smoothed_hazard_curve_def zip_smoother_def curve_example)
  have q: "difference_quotients [Fin 0, Fin 1, Fin 3] [Fin 0, Fin 2, Fin 3] = [Fin 2, Fin (1 / 2)]"
    by (simp add: difference_quotients_def fsub_def upt_rec)
  have i: "fdiv (Fin 4) (fadd (Fin 4) (res_scale result_example)) = Fin (1 / 4)"
    by (simp add: result_example_def)
  from hazard_estimate_is_notebook_code[OF a b c d, of "[]" "\<lparr>g_s = None\<rparr>" zip_smoother "[]"
      "[]" "[]"]
  show ?thesis by (simp add: curve_example s q i)
qed

text \<open>
  Claim C2 as stated fails: the hazard cell presents an estimate that the library did not
  compute. With the library returning times 1, 3 and probabilities 1, 1/2, the cell plots
  the value \<open>ln (ln 2 / 2)\<close>, which is none of the values the library returned; it comes
  out of the function \<open>hazard\<close> that the notebook defines.
\<close>

theorem hazard_not_library_counterexample:
  "hazard_plot (\<lambda>c. Inr survfunc_example) (schich_sex_call [] ''Female'') \<lparr>g_s = None\<rparr>
     = Inr (\<lparr>g_s = Some survfunc_example\<rparr>, ([Fin 1], [Fin (ln (ln 2 / 2))]))
   \<and> Fin (ln (ln 2 / 2)) \<notin> library_values survfunc_example"
proof -
  have "length (surv_times survfunc_example) = length (surv_prob survfunc_example)"
    by (simp add: survfunc_example_def)
  then have "hazard_plot (\<lambda>c. Inr survfunc_example) (schich_sex_call [] ''Female'') \<lparr>g_s = None\<rparr>
     = Inr (\<lparr>g_s = Some survfunc_example\<rparr>, log_hazard_curve survfunc_example)"
    by (simp add: hazard_plot_curve)
  moreover have "Fin (ln (ln 2 / 2)) \<notin> library_values survfunc_example"
  proof -
    define y :: real where "y = ln (ln 2 / 2)"
    have "ln (ln 2 / 2 :: real) < 0" using ln2_lt1 by (simp add: ln_less_zero_iff)
    then have "y < 0" by (simp add: y_def)
    then have "Fin y \<notin> library_values survfunc_example"
      by (auto simp: library_values_def survfunc_example_def)
    then show ?thesis by (simp add: y_def)
  qed
  ultimately show ?thesis by (simp add: curve_example)
qed

section \<open>Properties of the calls and the reads\<close>

text \<open>
  Claim C7. The two conversion cells, guarded by \<open>if False\<close>, read nothing. The reads that
  the notebooks do perform are, in order, one csv file, two fixed-width files and one
  csv file; each is gzip-compressed (by its \<open>.gz\<close> extension for \<open>read_csv\<close>, by
  \<open>compression="gzip"\<close> for \<open>read_fwf\<close>) and at a local path. No Excel or Stata file is
  read.
\<close>

theorem reads_are_gzip_text:
  "schich_conversion_reads = [] \<and> rlms_conversion_reads = []
   \<and> survival_reads @ rlms_reads
      = [Read_csv ''schich.csv.gz'',
         Read_fwf ''/nfs/kshedden/NHANES/NHANES_III_MORT_2011_PUBLIC.dat.gz'' ''gzip'',
         Read_fwf ''/nfs/kshedden/NHANES/adult.dat.gz'' ''gzip'',
         Read_csv ''/nfs/kshedden/RLMS/rlms.csv.gz'']
   \<and> list_all gzip_local_text (survival_reads @ rlms_reads)"
  by (simp add: schich_conversion_reads_def rlms_conversion_reads_def survival_reads_def
      rlms_reads_def path_join_def dpath_def ends_with_def)

text \<open>
  Claim C6. The four mixed-model fits of the multilevel notebook pass the formula
  \<open>bmi ~ age_cen*female + year_cen\<close> and one grouping column each: \<open>idind\<close> for the
  first two, \<open>psu\<close> for the last two, all on the same frame. The first fit has no
  variance components. Each of the other three declares a random intercept (\<open>1\<close> or
  \<open>0 + C(idind)\<close>) and a random slope in \<open>age_cen\<close> (\<open>0 + age_cen\<close> or
  \<open>0 + C(idind):age_cen\<close>), and no formula other than these four.
\<close>

theorem mixedlm_formulas:
  "map ml_formula (rlms_mixedlm_calls dx) = replicate 4 ''bmi ~ age_cen*female + year_cen''
   \<and> map ml_groups (rlms_mixedlm_calls dx) = [''idind'', ''idind'', ''psu'', ''psu'']
   \<and> map ml_data (rlms_mixedlm_calls dx) = replicate 4 dx
   \<and> ml_vc_formula (rlms_model1 dx) = None
   \<and> list_all (\<lambda>c. list_ex (\<lambda>f. f \<in> {''1'', ''0 + C(idind)''}) (vc_formulas c)
                 \<and> list_ex (\<lambda>f. f \<in> {''0 + age_cen'', ''0 + C(idind):age_cen''}) (vc_formulas c)
                 \<and> list_all (\<lambda>f. f \<in> {''1'', ''0 + C(idind)'', ''0 + age_cen'',
                                        ''0 + C(idind):age_cen''}) (vc_formulas c))
        [rlms_model2 dx, rlms_model3 dx, rlms_model4 dx]"
  by (simp add: rlms_mixedlm_calls_def rlms_model1_def rlms_model2_def rlms_model3_def
      rlms_model4_def vc_formulas_def numeral_eq_Suc)

section \<open>Coercion never raises, and the fits see no missing value\<close>


lemma to_numeric_unparseable: "parse t = None \<Longrightarrow> to_numeric parse Coerce (Str t) = Inr NaN"
  by simp


















lemma unique_distinct: "distinct xs \<Longrightarrow> unique xs = xs"
  by (simp add: unique_def distinct_remdups_id)

lemma example_frame:
  "rlms_dx_frame (map rlms_row_example [0..<n]) = map (\<lambda>i. rlms_select (rlms_row_example i)) [0..<n]"
  by (simp add: rlms_dx_frame_def dx_complete_def rlms_select_def rlms_row_example_def isna_def
      comp_def)

lemma example_ids:
  "map dx_idind (map (\<lambda>i. rlms_select (rlms_row_example i)) [0..<n]) = map (\<lambda>i. Fin (real i)) [0..<n]"
  by (simp add: rlms_select_def rlms_row_example_def)

lemma example_ids_distinct: "distinct (map (\<lambda>i. Fin (real i)) [0..<n])"
  by (simp add: distinct_map inj_on_def)

lemma example_subsample:
  "rlms_subsample (\<lambda>idx k. take k idx) (map (\<lambda>i. rlms_select (rlms_row_example i)) [0..<2000])
     = Inr (map (\<lambda>i. rlms_select (rlms_row_example i)) [0..<2000])"
proof -
  let ?dx = "map (\<lambda>i. rlms_select (rlms_row_example i)) [0..<2000]"
  let ?ids = "map (\<lambda>i. Fin (real i)) [0..<2000::nat]"
  have u: "unique (map dx_idind ?dx) = ?ids"
    by (simp only: example_ids unique_distinct[OF example_ids_distinct])
  have l: "length ?ids = 2000" by simp
  have "filter (\<lambda>r. dx_idind r \<in> set ?ids) ?dx = ?dx"
  proof (rule filter_True, intro ballI)
    fix r assume "r \<in> set ?dx"
    then have "dx_idind r \<in> dx_idind ` set ?dx" by (rule imageI)
    then have "dx_idind r \<in> set (map dx_idind ?dx)" by (simp only: set_map)
    then show "dx_idind r \<in> set ?ids" by (simp only: example_ids)
  qed
  then show ?thesis
    unfolding rlms_subsample_def Let_def u using l by simp
qed


section \<open>What the simulation cell finds in the shared state\<close>

lemma collect_map_Inr: "collect (map (\<lambda>x. Inr (f x)) xs) = Inr (map f xs)"
  by (induction xs) (simp_all add: then_do_def)

lemma coerce_subject: "coerce_row parse (rlms_csv_subject i) = Inr (rlms_num_subject i)"
  by (simp add: coerce_row_def rlms_csv_subject_def rlms_num_subject_def then_do_def)

lemma coerce_subjects:
  "rlms_coerce parse (map rlms_csv_subject is) = Inr (map rlms_num_subject is)"
  by (simp add: rlms_coerce_def comp_def coerce_subject collect_map_Inr)

lemma foldl_fadd_const:
  "foldl fadd (Fin a) (map (\<lambda>i. Fin c) xs) = Fin (a + real (length xs) * c)"
  by (induction xs arbitrary: a) (simp_all add: algebra_simps)

lemma fmean_const: "xs \<noteq> [] \<Longrightarrow> fmean (map (\<lambda>i. Fin c) xs) = Fin c"
  by (simp add: fmean_def isna_def foldl_fadd_const)

lemma derive_subjects:
  assumes "is \<noteq> []"
  shows "rlms_derive (map rlms_num_subject is) = map rlms_row_example is"
proof -
  have y: "rlms_year_mean (map rlms_num_subject is) = Fin 2005"
    using assms by (simp add: rlms_year_mean_def comp_def rlms_num_subject_def fmean_const)
  have a: "rlms_age_mean (map rlms_num_subject is) = Fin 40"
    using assms
    by (simp add: rlms_age_mean_def comp_def rlms_num_subject_def fsub_def fmean_const)
  have h: "fmean (map h6 (map rlms_num_subject is)) = Fin 1965"
    using assms by (simp add: comp_def rlms_num_subject_def fmean_const)
  have "rlms_derive_row (map rlms_num_subject is) (rlms_num_subject i) = rlms_row_example i" for i
    by (simp add: rlms_derive_row_def y a h h[unfolded map_map])
       (simp add: rlms_num_subject_def rlms_row_example_def fsub_def power2_eq_square)
  then show ?thesis by (simp add: rlms_derive_def)
qed

lemma age_mean_subjects: "is \<noteq> [] \<Longrightarrow> rlms_age_mean (map rlms_num_subject is) = Fin 40"
  by (simp add: rlms_age_mean_def comp_def rlms_num_subject_def fsub_def fmean_const)

lemma year_mean_subjects: "is \<noteq> [] \<Longrightarrow> rlms_year_mean (map rlms_num_subject is) = Fin 2005"
  by (simp add: rlms_year_mean_def comp_def rlms_num_subject_def fmean_const)

lemma run_example:
  "rlms_before_sim counter_generator fit_example parse_example (map rlms_csv_subject [0..<2000])
     (rlms_initial r) = Inr (rlms_state_example (Suc r))"
proof -
  have ne: "[0..<2000::nat] \<noteq> []" by simp
  have ch: "(\<lambda>idx n. fst (gen_choice counter_generator r idx n)) = (\<lambda>idx k. take k idx)"
    by (simp add: counter_generator_def)
  have sub: "rlms_subsample (\<lambda>idx n. fst (gen_choice counter_generator r idx n))
      (rlms_dx_frame (map rlms_row_example [0..<2000]))
     = Inr (map (\<lambda>i. rlms_select (rlms_row_example i)) [0..<2000])"
    unfolding ch by (simp only: example_frame example_subsample)
  have rn: "snd (gen_choice counter_generator r idx n) = Suc r" for idx n
    by (simp add: counter_generator_def)
  show ?thesis
    unfolding rlms_before_sim_def coerce_subjects
    by (simp add: then_do_def rlms_derive_cell_def rlms_dx_cell_def rlms_subsample_cell_def
        rlms_model1_cell_def rlms_icc_cell_def rlms_initial_def lookup_var_def series_get_def
        derive_subjects[OF ne] age_mean_subjects[OF ne] year_mean_subjects[OF ne] sub rn
        fit_example_def result_example_def rlms_state_example_def
        del: upt_conv_Cons)
qed


lemma draws_counter: "draws (gen_normal counter_generator) r k = Fin (real (r + k))"
  by (induction k arbitrary: r) (simp_all add: counter_generator_def)

lemma sim_state_example:
  "drawn (rlms_sim_cell_gen counter_generator (rlms_state_example r))
     = Inr (map (\<lambda>k. ([Fin 20, Fin 60],
                        [Fin (23 + 2 * real (r + k)), Fin (27 + 2 * real (r + k))])) [0..<10])"
  by (simp add: drawn_def rlms_sim_cell_gen_def rlms_sim_cell_def rlms_state_example_def
      result_example_def lookup_var_def series_get_def then_do_def collect_map_Inr sim_line_def
      fsub_def draws_counter del: upt_conv_Cons)

lemma sim_frame:
  assumes "g_pa g' = g_pa g" "g_age_mean g' = g_age_mean g" "g_rng g' = g_rng g"
  shows "drawn (rlms_sim_cell_gen gen g') = drawn (rlms_sim_cell_gen gen g)"
  using assms
  by (simp add: drawn_def rlms_sim_cell_gen_def rlms_sim_cell_def then_do_def split: sum.splits)

text \<open>
  Claim C9, as amended. In the in-sequence execution of the multilevel notebook up to its
  first simulation cell, the cells share more than the dataset. The state that the
  simulation cell finds holds, next to the frames \<open>df\<close> and \<open>dx\<close>, the variable
  \<open>age_mean\<close> (the mean of \<open>df.age\<close>), the variable \<open>pa\<close> (the parameters of the first
  mixed-model fit on \<open>dx\<close>) and numpy's global random generator in the state in which the
  subsampling draw left it. The lines the cell draws are determined by \<open>pa\<close>, \<open>age_mean\<close>
  and that generator state: any state that agrees on these three gives the same lines,
  whatever its frames hold.
\<close>

theorem sim_cell_reads_shared_state:
  assumes "rlms_before_sim gen fit parse csv (rlms_initial r0) = Inr g"
  shows "(\<exists>df dx res.
            rlms_coerce parse csv = Inr df
          \<and> g_df g = Some (rlms_derive df)
          \<and> rlms_subsample (\<lambda>idx n. fst (gen_choice gen r0 idx n)) (rlms_dx_frame (rlms_derive df))
              = Inr dx
          \<and> g_dx g = Some dx
          \<and> fit (rlms_model1 dx) = Inr res
          \<and> g_age_mean g = Some (rlms_age_mean df)
          \<and> g_pa g = Some (res_params res)
          \<and> g_rng g = snd (gen_choice gen r0
                              (unique (map dx_idind (rlms_dx_frame (rlms_derive df)))) 2000))
     \<and> (\<forall>g'. g_pa g' = g_pa g \<and> g_age_mean g' = g_age_mean g \<and> g_rng g' = g_rng g
            \<longrightarrow> drawn (rlms_sim_cell_gen gen g') = drawn (rlms_sim_cell_gen gen g))"
proof
  from assms obtain df where df: "rlms_coerce parse csv = Inr df"
    by (auto simp: rlms_before_sim_def then_do_def split: sum.splits)
  let ?g1 = "(rlms_derive_cell df (rlms_initial r0))\<lparr>g_dx := Some (rlms_dx_frame (rlms_derive df))\<rparr>"
  have g1: "rlms_dx_cell (rlms_derive_cell df (rlms_initial r0)) = Inr ?g1"
    by (simp add: rlms_dx_cell_def rlms_derive_cell_def lookup_var_def then_do_def)
  from assms df g1 obtain g2 where g2: "rlms_subsample_cell gen ?g1 = Inr g2"
    by (auto simp: rlms_before_sim_def then_do_def split: sum.splits)
  then obtain dx where dx: "rlms_subsample (\<lambda>idx n. fst (gen_choice gen r0 idx n))
        (rlms_dx_frame (rlms_derive df)) = Inr dx"
    and g2e: "g2 = ?g1\<lparr>g_dx := Some dx,
        g_rng := snd (gen_choice gen r0 (unique (map dx_idind (rlms_dx_frame (rlms_derive df)))) 2000)\<rparr>"
    by (auto simp: rlms_subsample_cell_def rlms_derive_cell_def rlms_initial_def lookup_var_def
        then_do_def split: sum.splits)
  from assms df g1 g2 obtain g3 where g3: "rlms_model1_cell fit g2 = Inr g3"
    by (auto simp: rlms_before_sim_def then_do_def split: sum.splits)
  then obtain res where res: "fit (rlms_model1 dx) = Inr res"
    and g3e: "g3 = g2\<lparr>g_result1 := Some res\<rparr>"
    by (auto simp: rlms_model1_cell_def g2e lookup_var_def then_do_def split: sum.splits)
  from assms df g1 g2 g3 obtain icc where "rlms_icc_cell g3 = Inr (g, icc)"
    by (auto simp: rlms_before_sim_def then_do_def split: sum.splits)
  then have ge: "g = g3\<lparr>g_pa := Some (res_params res)\<rparr>"
    by (auto simp: rlms_icc_cell_def g3e lookup_var_def then_do_def Let_def split: sum.splits)
  show "\<exists>df dx res.
            rlms_coerce parse csv = Inr df
          \<and> g_df g = Some (rlms_derive df)
          \<and> rlms_subsample (\<lambda>idx n. fst (gen_choice gen r0 idx n)) (rlms_dx_frame (rlms_derive df))
              = Inr dx
          \<and> g_dx g = Some dx
          \<and> fit (rlms_model1 dx) = Inr res
          \<and> g_age_mean g = Some (rlms_age_mean df)
          \<and> g_pa g = Some (res_params res)
          \<and> g_rng g = snd (gen_choice gen r0
                              (unique (map dx_idind (rlms_dx_frame (rlms_derive df)))) 2000)"
    using df dx res
    by (intro exI[of _ df] exI[of _ dx] exI[of _ res])
       (simp add: ge g3e g2e rlms_derive_cell_def rlms_initial_def)
  show "\<forall>g'. g_pa g' = g_pa g \<and> g_age_mean g' = g_age_mean g \<and> g_rng g' = g_rng g
            \<longrightarrow> drawn (rlms_sim_cell_gen gen g') = drawn (rlms_sim_cell_gen gen g)"
    using sim_frame by blast
qed

text \<open>
  The theorem on the run over the sample data from the generator state 0: the run leaves
  the sample state with a mean age of 40 and the generator in state 1, and the simulation
  cell draws the same lines there as in that state with both frames unbound.
\<close>

theorem sim_cell_reads_shared_state_witness:
  "rlms_before_sim counter_generator fit_example parse_example (map rlms_csv_subject [0..<2000])
     (rlms_initial 0) = Inr (rlms_state_example 1)
   \<and> drawn (rlms_sim_cell_gen counter_generator
               ((rlms_state_example 1)\<lparr>g_df := None, g_dx := None\<rparr>))
       = drawn (rlms_sim_cell_gen counter_generator (rlms_state_example 1))
   \<and> g_age_mean (rlms_state_example 1) = Some (Fin 40)
   \<and> g_rng (rlms_state_example 1) = 1"
proof -
  have run: "rlms_before_sim counter_generator fit_example parse_example
      (map rlms_csv_subject [0..<2000]) (rlms_initial 0) = Inr (rlms_state_example 1)"
    using run_example[of 0] by (simp only: One_nat_def)
  have same: "g_pa ((rlms_state_example 1)\<lparr>g_df := None, g_dx := None\<rparr>) = g_pa (rlms_state_example 1)
      \<and> g_age_mean ((rlms_state_example 1)\<lparr>g_df := None, g_dx := None\<rparr>)
          = g_age_mean (rlms_state_example 1)
      \<and> g_rng ((rlms_state_example 1)\<lparr>g_df := None, g_dx := None\<rparr>) = g_rng (rlms_state_example 1)"
    by (simp del: upt_conv_Cons)
  note t = sim_cell_reads_shared_state[OF run, THEN conjunct2, rule_format, OF same]
  have v: "g_age_mean (rlms_state_example 1) = Some (Fin 40)" "g_rng (rlms_state_example 1) = 1"
    by (simp_all add: rlms_state_example_def del: upt_conv_Cons)
  from run t v show ?thesis by (intro conjI)
qed

text \<open>
  Claim C9 as stated fails: two executions of the cells in sequence on the same csv frame
  and with the same fits, one from the generator state 0 and one from the generator state
  5, leave the same frames \<open>df\<close> and \<open>dx\<close>, and the simulation cell draws different
  lines in them. The generator state that the earlier cells left is neither the dataset
  nor a variable of the simulation cell.
\<close>

theorem same_dataset_different_lines_counterexample:
  "rlms_before_sim counter_generator fit_example parse_example (map rlms_csv_subject [0..<2000])
     (rlms_initial 0) = Inr (rlms_state_example 1)
   \<and> rlms_before_sim counter_generator fit_example parse_example (map rlms_csv_subject [0..<2000])
     (rlms_initial 5) = Inr (rlms_state_example 6)
   \<and> g_df (rlms_state_example 1) = g_df (rlms_state_example 6)
   \<and> g_dx (rlms_state_example 1) = g_dx (rlms_state_example 6)
   \<and> drawn (rlms_sim_cell_gen counter_generator (rlms_state_example 1))
       \<noteq> drawn (rlms_sim_cell_gen counter_generator (rlms_state_example 6))"
proof -
  have "map (\<lambda>k. ([Fin 20, Fin 60], [Fin (23 + 2 * real (1 + k)), Fin (27 + 2 * real (1 + k))]))
          [0..<10]
      \<noteq> map (\<lambda>k. ([Fin 20, Fin 60], [Fin (23 + 2 * real (6 + k)), Fin (27 + 2 * real (6 + k))]))
          [0..<10]"
  proof
    assume "map (\<lambda>k. ([Fin 20, Fin 60], [Fin (23 + 2 * real (1 + k)), Fin (27 + 2 * real (1 + k))]))
          [0..<10]
      = map (\<lambda>k. ([Fin 20, Fin 60], [Fin (23 + 2 * real (6 + k)), Fin (27 + 2 * real (6 + k))]))
          [0..<10]"
    then have "map (\<lambda>k. ([Fin 20, Fin 60], [Fin (23 + 2 * real (1 + k)), Fin (27 + 2 * real (1 + k))]))
          [0..<10] ! 0
      = map (\<lambda>k. ([Fin 20, Fin 60], [Fin (23 + 2 * real (6 + k)), Fin (27 + 2 * real (6 + k))]))
          [0..<10] ! 0"
      by (rule arg_cong)
    then show False by simp
  qed
  then show ?thesis
    using run_example[of 0] run_example[of 5]
    by (simp add: sim_state_example del: upt_conv_Cons)
       (simp add: rlms_state_example_def del: upt_conv_Cons)
qed

end
